theory Spec2Isabelle
  imports Complex_Main "HOL-Library.AList" "HOL-Library.Char_ord" "HOL-Library.List_Lexorder"
begin

section \<open>Benchmark plots: the script \<open>test-network/bench-ph/plot.py\<close>\<close>

text \<open>
  The script reads a table of benchmark results, groups the rows by file and algorithm
  and draws three bar charts. This theory embeds its functions in HOL, one definition per
  source function, and proves the properties of the data that reaches the charts.

  Conventions of the embedding:
  \<^item> a Python \<open>str\<close> is a \<open>string\<close>; a \<open>char\<close> stands for a code point below 256;
  \<^item> a Python \<open>dict\<close> is an association list with distinct keys in insertion order:
    \<open>map_of d k\<close> reads a key, \<open>AList.update k v d\<close> is \<open>d[k] = v\<close> (an existing key
    keeps its position, a new one goes to the end), \<open>map fst d\<close> is the iteration order;
  \<^item> an exception is a value \<open>Inl e\<close> of the result type \<open>py_error + 'a\<close>;
  \<^item> a Python \<open>float\<close> is a value of a type \<open>'f\<close> that the theory never looks into. The
    library functions whose result depends on the interpreter or on the machine (the
    parsers \<open>int\<close> and \<open>float\<close>, float truth value, float division, the format \<open>.2f\<close>,
    \<open>pathlib\<close>, and the drawing and writing of a figure by matplotlib) are the fields of
    an environment record \<open>py_env\<close>, and every theorem holds for every environment.
\<close>

subsection \<open>Exceptions, dictionaries, the library environment\<close>

datatype py_error = KeyError | AttributeError | ValueError | ZeroDivisionError | OSError

type_synonym ('k, 'v) dict = "('k \<times> 'v) list"

text \<open>\<open>d[k]\<close> raises \<open>KeyError\<close> for a missing key.\<close>

definition subscript :: "('k, 'v) dict \<Rightarrow> 'k \<Rightarrow> py_error + 'v" where
  "subscript d k = (case map_of d k of None \<Rightarrow> Inl KeyError | Some v \<Rightarrow> Inr v)"

text \<open>\<open>k in d\<close>.\<close>

definition has_key :: "('k, 'v) dict \<Rightarrow> 'k \<Rightarrow> bool" where
  "has_key d k = (map_of d k \<noteq> None)"

text \<open>\<open>d.get(k, default)\<close>.\<close>

definition dict_get :: "('k, 'v) dict \<Rightarrow> 'k \<Rightarrow> 'v \<Rightarrow> 'v" where
  "dict_get d k dflt = (case map_of d k of None \<Rightarrow> dflt | Some v \<Rightarrow> v)"

text \<open>
  A \<open>for\<close> loop whose body may raise: the state is threaded through the elements in order
  and the first exception ends the loop.
\<close>

fun for_each :: "('a \<Rightarrow> 's \<Rightarrow> py_error + 's) \<Rightarrow> 'a list \<Rightarrow> 's \<Rightarrow> py_error + 's" where
  "for_each body [] s = Inr s"
| "for_each body (x # xs) s =
     (case body x s of Inl e \<Rightarrow> Inl e | Inr s' \<Rightarrow> for_each body xs s')"

text \<open>
  A figure, as the calls of the script have made it when it is drawn: the bar groups, the
  ticks with their labels, the legend and the texts. The functions that make these
  calls come with the drawing surface below.
\<close>

record 'f axes =
  bar_calls :: "(nat list \<times> 'f list \<times> string option) list"
  xticks :: "nat list \<times> string list"
  legend_drawn :: bool
  text_calls :: "('f \<times> string) list"

text \<open>
  The library functions the script calls. \<open>py_int\<close> and \<open>py_float\<close> are \<open>int(x)\<close> and
  \<open>float(x)\<close> on a string, \<open>None\<close> standing for the \<open>ValueError\<close> of a rejected string;
  \<open>f_zero\<close> is the literal \<open>0.0\<close>; \<open>f_nonzero v\<close> is the truth value of a float (false
  exactly for a zero); \<open>f_div a b\<close> is \<open>a / b\<close> for a non-zero \<open>b\<close>; \<open>f_fmt2 v\<close> is
  \<open>f"{v:.2f}"\<close>; \<open>path_stem\<close> is \<open>Path.stem\<close> and \<open>path_join p s\<close> is \<open>p / s\<close>, a path
  being written as its text. \<open>draw fig path\<close> is what matplotlib does with a figure in
  \<open>fig.tight_layout()\<close> and \<open>fig.savefig(path, dpi=120)\<close>: \<open>None\<close> when the image is written,
  the exception otherwise (a \<open>ValueError\<close> for a tick label that is not valid math text,
  such as \<open>$$\<close>; an \<open>OSError\<close> for a path that cannot be written).
\<close>

record 'f py_env =
  py_int :: "string \<Rightarrow> int option"
  py_float :: "string \<Rightarrow> 'f option"
  f_zero :: "'f"
  f_nonzero :: "'f \<Rightarrow> bool"
  f_div :: "'f \<Rightarrow> 'f \<Rightarrow> 'f"
  f_fmt2 :: "'f \<Rightarrow> string"
  path_stem :: "string \<Rightarrow> string"
  path_join :: "string \<Rightarrow> string \<Rightarrow> string"
  draw :: "'f axes \<Rightarrow> string \<Rightarrow> py_error option"

text \<open>\<open>a / b\<close> on floats raises \<open>ZeroDivisionError\<close> for a zero divisor.\<close>

definition truediv :: "'f py_env \<Rightarrow> 'f \<Rightarrow> 'f \<Rightarrow> py_error + 'f" where
  "truediv env a b = (if f_nonzero env b then Inr (f_div env a b) else Inl ZeroDivisionError)"

text \<open>
  \<open>str.strip()\<close> removes the white space at both ends. Among the code points below 256
  Python counts as white space 9 to 13, 28 to 32, 133 and 160.
\<close>

definition is_space :: "char \<Rightarrow> bool" where
  "is_space c = (let n = (of_char c :: nat) in
     (9 \<le> n \<and> n \<le> 13) \<or> (28 \<le> n \<and> n \<le> 32) \<or> n = 133 \<or> n = 160)"

definition strip :: "string \<Rightarrow> string" where
  "strip s = rev (dropWhile is_space (rev (dropWhile is_space s)))"

subsection \<open>The row reader\<close>

text \<open>
  \<open>csv.DictReader\<close> over the rows that \<open>csv.reader\<close> yields: the first row holds the
  field names, an empty row is skipped, and every other row becomes a dictionary from
  field name to cell. A row shorter than the header has \<open>None\<close> for its missing cells;
  the cells beyond the header go under the key \<open>None\<close>, which the script never reads and
  the model leaves out.
\<close>

definition dict_row :: "string list \<Rightarrow> string list \<Rightarrow> (string, string option) dict" where
  "dict_row fieldnames cells =
     foldl (\<lambda>d (k, v). AList.update k v d) []
       (zip fieldnames (map Some cells) @
        map (\<lambda>k. (k, None)) (drop (length cells) fieldnames))"

fun dict_reader :: "string list list \<Rightarrow> (string, string option) dict list" where
  "dict_reader [] = []"
| "dict_reader (fieldnames # lines) =
     map (dict_row fieldnames) (filter (\<lambda>cells. cells \<noteq> []) lines)"

text \<open>One output row of \<open>read_rows\<close>: the dictionary \<open>out\<close> with its seven keys (\<open>file_name\<close> is the
  key \<open>"file"\<close>).\<close>

record 'f row =
  algo :: string
  file_name :: string
  B_bytes :: "int option"
  bytes :: int
  elapsed_ms_med :: 'f
  throughput_mib_s :: 'f
  sum_hex :: string

text \<open>\<open>x or ""\<close> for a cell that is a string or \<open>None\<close>.\<close>

definition or_empty :: "string option \<Rightarrow> string" where
  "or_empty x = (case x of None \<Rightarrow> [] | Some s \<Rightarrow> (if s = [] then [] else s))"

text \<open>
  The two local functions of \<open>read_rows\<close>. Their bare \<open>except\<close> turns every exception of
  the parser into \<open>None\<close>.
\<close>

definition to_int :: "'f py_env \<Rightarrow> string option \<Rightarrow> int option" where
  "to_int env x = (let x = strip (or_empty x) in
     (case py_int env x of Some n \<Rightarrow> Some n | None \<Rightarrow> None))"

definition to_float :: "'f py_env \<Rightarrow> string option \<Rightarrow> 'f option" where
  "to_float env x = (let x = strip (or_empty x) in
     (case py_float env x of Some v \<Rightarrow> Some v | None \<Rightarrow> None))"

text \<open>\<open>v or 0\<close> and \<open>v or 0.0\<close>: the default replaces \<open>None\<close> and a zero.\<close>

definition or_int :: "int option \<Rightarrow> int \<Rightarrow> int" where
  "or_int v dflt = (case v of None \<Rightarrow> dflt | Some n \<Rightarrow> (if n \<noteq> 0 then n else dflt))"

definition or_float :: "'f py_env \<Rightarrow> 'f option \<Rightarrow> 'f \<Rightarrow> 'f" where
  "or_float env v dflt = (case v of None \<Rightarrow> dflt | Some a \<Rightarrow> (if f_nonzero env a then a else dflt))"

text \<open>
  \<open>r["algo"].strip()\<close>: \<open>KeyError\<close> when the header lacks the column, \<open>AttributeError\<close>
  when the cell is \<open>None\<close>.
\<close>

definition subscript_strip :: "(string, string option) dict \<Rightarrow> string \<Rightarrow> py_error + string" where
  "subscript_strip r k =
     (case subscript r k of
        Inl e \<Rightarrow> Inl e
      | Inr None \<Rightarrow> Inl AttributeError
      | Inr (Some s) \<Rightarrow> Inr (strip s))"

text \<open>The body of the loop of \<open>read_rows\<close>, for one dictionary \<open>r\<close> of the reader.\<close>

definition read_row ::
  "'f py_env \<Rightarrow> (string, string option) dict \<Rightarrow> 'f row list \<Rightarrow> py_error + 'f row list" where
  "read_row env r rows =
     (case subscript_strip r ''algo'' of Inl e \<Rightarrow> Inl e | Inr a \<Rightarrow>
      case subscript_strip r ''file'' of Inl e \<Rightarrow> Inl e | Inr f \<Rightarrow>
        Inr (rows @
          [\<lparr> algo = a,
             file_name = f,
             B_bytes = to_int env (dict_get r ''B_bytes'' (Some [])),
             bytes = or_int (to_int env (dict_get r ''bytes'' (Some []))) 0,
             elapsed_ms_med =
               or_float env (to_float env (dict_get r ''elapsed_ms_med'' (Some []))) (f_zero env),
             throughput_mib_s =
               or_float env (to_float env (dict_get r ''throughput_mib_s'' (Some []))) (f_zero env),
             sum_hex = strip (or_empty (dict_get r ''sum_hex'' (Some []))) \<rparr>]))"

text \<open>
  \<open>read_rows\<close>, from the rows of the opened table. (That the file cannot be opened is
  outside the model.)
\<close>

definition read_rows :: "'f py_env \<Rightarrow> string list list \<Rightarrow> py_error + 'f row list" where
  "read_rows env table = for_each (read_row env) (dict_reader table) []"

subsection \<open>The pivot index\<close>

type_synonym 'f index = "(string, (string, 'f row) dict) dict"

text \<open>
  The body of the loop of \<open>pivot_by_file\<close>. After the first assignment the key \<open>fname\<close> is
  present, so \<open>by_file[fname]\<close> cannot raise (lemma \<open>pivot_step_inner\<close> below).
\<close>

definition pivot_step :: "'f index \<Rightarrow> 'f row \<Rightarrow> 'f index" where
  "pivot_step by_file r =
     (let a = algo r; fname = file_name r in
      if a \<noteq> ''SHA-256'' \<and> a \<noteq> ''PH128'' then by_file
      else
        let by_file1 = (if \<not> has_key by_file fname then AList.update fname [] by_file else by_file);
            inner = dict_get by_file1 fname []
        in AList.update fname (AList.update a r inner) by_file1)"

definition pivot_by_file :: "'f row list \<Rightarrow> 'f index" where
  "pivot_by_file rows = foldl pivot_step [] rows"

subsection \<open>The drawing surface\<close>

text \<open>
  What the script hands to matplotlib, call by call: each \<open>ax.bar(x, height, label=...)\<close>
  with its positions, heights and legend label, the ticks and tick labels of
  \<open>ax.set_xticks\<close>, whether \<open>ax.legend()\<close> was called, and each \<open>ax.text\<close> with its height
  and its text. A bar position is the index of its category; the offset of half a bar
  width, the titles, captions, grid, sizes and rotation are constants of the drawing and
  are left out. \<open>ax.bar\<close> returns its rectangles, one per height: the script always
  passes as many positions as heights. The record \<open>axes\<close> above holds these calls.
\<close>

definition subplots :: "'f axes" where
  "subplots = \<lparr> bar_calls = [], xticks = ([], []), legend_drawn = False, text_calls = [] \<rparr>"

definition ax_bar :: "'f axes \<Rightarrow> nat list \<Rightarrow> 'f list \<Rightarrow> string option \<Rightarrow> 'f axes \<times> 'f list" where
  "ax_bar ax x height label = (ax\<lparr> bar_calls := bar_calls ax @ [(x, height, label)] \<rparr>, height)"

definition ax_set_xticks :: "'f axes \<Rightarrow> nat list \<Rightarrow> string list \<Rightarrow> 'f axes" where
  "ax_set_xticks ax x labels = ax\<lparr> xticks := (x, labels) \<rparr>"

definition ax_legend :: "'f axes \<Rightarrow> 'f axes" where
  "ax_legend ax = ax\<lparr> legend_drawn := True \<rparr>"

definition ax_text :: "'f axes \<Rightarrow> 'f \<Rightarrow> string \<Rightarrow> 'f axes" where
  "ax_text ax y s = ax\<lparr> text_calls := text_calls ax @ [(y, s)] \<rparr>"

text \<open>\<open>_bar_labels\<close> with its default \<open>fmt="{}"\<close>: one text per bar, the height with two decimals.\<close>

definition bar_labels :: "'f py_env \<Rightarrow> 'f axes \<Rightarrow> 'f list \<Rightarrow> 'f axes" where
  "bar_labels env ax bars = foldl (\<lambda>ax height. ax_text ax height (f_fmt2 env height)) ax bars"

text \<open>The categories of a finished chart, and the heights of its \<open>k\<close>-th group of bars.\<close>

definition categories :: "'f axes \<Rightarrow> string list" where
  "categories ax = snd (xticks ax)"

definition bar_heights :: "'f axes \<Rightarrow> nat \<Rightarrow> 'f list" where
  "bar_heights ax k = (if k < length (bar_calls ax) then fst (snd (bar_calls ax ! k)) else [])"

subsection \<open>The three renderers\<close>

text \<open>
  Each renderer has two parts. The first builds the figure: \<open>time_figure\<close>,
  \<open>speedup_figure\<close> and \<open>throughput_figure\<close> are the statements of the three functions
  down to the calls of \<open>_bar_labels\<close>, and return the figure with the path it is to be
  saved to. The second part is the same in the three functions: \<open>fig.tight_layout()\<close>,
  \<open>fig.savefig(out_png, dpi=120)\<close> and \<open>plt.close(fig)\<close>, here \<open>savefig\<close>, which returns
  the saved figure with its path, or the exception of the drawing. \<open>make_time_plot\<close>,
  \<open>make_speedup_plot\<close> and \<open>make_throughput_plot\<close> are the whole functions.
\<close>

type_synonym 'f saved = "string \<times> 'f axes"

definition savefig :: "'f py_env \<Rightarrow> 'f saved \<Rightarrow> py_error + 'f saved" where
  "savefig env fig =
     (case fig of (out_png, ax) \<Rightarrow>
      case draw env ax out_png of Some e \<Rightarrow> Inl e | None \<Rightarrow> Inr (out_png, ax))"

text \<open>The body of the loop of \<open>make_time_plot\<close> over \<open>by_file.items()\<close>.\<close>

definition time_body ::
  "string \<times> (string, 'f row) dict \<Rightarrow> string list \<times> 'f list \<times> 'f list \<Rightarrow>
   py_error + string list \<times> 'f list \<times> 'f list" where
  "time_body item acc =
     (case item of (fname, algos) \<Rightarrow>
      case acc of (labels, sha_times, ph_times) \<Rightarrow>
        if fname = ''TOTAL'' then Inr acc
        else if has_key algos ''SHA-256'' \<and> has_key algos ''PH128'' then
          (case subscript algos ''SHA-256'' of Inl e \<Rightarrow> Inl e | Inr s \<Rightarrow>
           case subscript algos ''PH128'' of Inl e \<Rightarrow> Inl e | Inr p \<Rightarrow>
             Inr (labels @ [fname], sha_times @ [elapsed_ms_med s], ph_times @ [elapsed_ms_med p]))
        else Inr acc)"

definition time_figure :: "'f py_env \<Rightarrow> 'f row list \<Rightarrow> string \<Rightarrow> py_error + 'f saved" where
  "time_figure env rows out_png =
     (let by_file = pivot_by_file rows in
      case for_each time_body by_file ([], [], []) of
        Inl e \<Rightarrow> Inl e
      | Inr (labels, sha_times, ph_times) \<Rightarrow>
          let x = [0..<length labels];
              ax = subplots;
              (ax, bars_sha) = ax_bar ax x sha_times (Some ''SHA-256'');
              (ax, bars_ph) = ax_bar ax x ph_times (Some ''PH128'');
              ax = ax_set_xticks ax x labels;
              ax = ax_legend ax;
              ax = bar_labels env ax bars_sha;
              ax = bar_labels env ax bars_ph
          in Inr (out_png, ax))"

definition make_time_plot :: "'f py_env \<Rightarrow> 'f row list \<Rightarrow> string \<Rightarrow> py_error + 'f saved" where
  "make_time_plot env rows out_png =
     (case time_figure env rows out_png of Inl e \<Rightarrow> Inl e | Inr fig \<Rightarrow> savefig env fig)"

text \<open>The body of the loop of \<open>make_speedup_plot\<close>.\<close>

definition speedup_body ::
  "'f py_env \<Rightarrow> string \<times> (string, 'f row) dict \<Rightarrow> string list \<times> 'f list \<Rightarrow>
   py_error + string list \<times> 'f list" where
  "speedup_body env item acc =
     (case item of (fname, algos) \<Rightarrow>
      case acc of (labels, speedups) \<Rightarrow>
        if has_key algos ''SHA-256'' \<and> has_key algos ''PH128'' then
          (case subscript algos ''SHA-256'' of Inl e \<Rightarrow> Inl e | Inr s \<Rightarrow>
           case subscript algos ''PH128'' of Inl e \<Rightarrow> Inl e | Inr p \<Rightarrow>
             let sha_t = throughput_mib_s s; ph_t = throughput_mib_s p in
             if f_nonzero env sha_t \<and> f_nonzero env ph_t then
               (case truediv env ph_t sha_t of Inl e \<Rightarrow> Inl e | Inr q \<Rightarrow>
                  Inr (labels @ [fname], speedups @ [q]))
             else Inr acc)
        else Inr acc)"

definition speedup_figure :: "'f py_env \<Rightarrow> 'f row list \<Rightarrow> string \<Rightarrow> py_error + 'f saved" where
  "speedup_figure env rows out_png =
     (let by_file = pivot_by_file rows in
      case for_each (speedup_body env) by_file ([], []) of
        Inl e \<Rightarrow> Inl e
      | Inr (labels, speedups) \<Rightarrow>
          let x = [0..<length labels];
              ax = subplots;
              (ax, bars) = ax_bar ax x speedups None;
              ax = ax_set_xticks ax x labels;
              ax = bar_labels env ax bars
          in Inr (out_png, ax))"

definition make_speedup_plot :: "'f py_env \<Rightarrow> 'f row list \<Rightarrow> string \<Rightarrow> py_error + 'f saved" where
  "make_speedup_plot env rows out_png =
     (case speedup_figure env rows out_png of Inl e \<Rightarrow> Inl e | Inr fig \<Rightarrow> savefig env fig)"

definition preferred :: "string list" where
  "preferred = [''public_state.data'', ''private_state_hashes.data'', ''txids.data'',
                ''_all.data'', ''TOTAL'']"

text \<open>
  The list comprehensions \<open>[by_file[f][a]["throughput_mib_s"] for f in labels]\<close> of
  \<open>make_throughput_plot\<close>: either subscript may raise \<open>KeyError\<close>.
\<close>

definition throughput_vals ::
  "'f index \<Rightarrow> string \<Rightarrow> string list \<Rightarrow> py_error + 'f list" where
  "throughput_vals by_file a labels =
     for_each (\<lambda>f vals.
        case subscript by_file f of Inl e \<Rightarrow> Inl e | Inr algos \<Rightarrow>
        case subscript algos a of Inl e \<Rightarrow> Inl e | Inr r \<Rightarrow>
          Inr (vals @ [throughput_mib_s r])) labels []"

text \<open>\<open>sorted\<close> on strings is the sort by code points, the order of \<open>string\<close> here.\<close>

definition throughput_figure :: "'f py_env \<Rightarrow> 'f row list \<Rightarrow> string \<Rightarrow> py_error + 'f saved" where
  "throughput_figure env rows out_png =
     (let by_file = pivot_by_file rows;
          all_labels = map fst (filter (\<lambda>(fname, algos).
                         has_key algos ''SHA-256'' \<and> has_key algos ''PH128'') by_file);
          labels = filter (\<lambda>f. f \<in> set all_labels) preferred @
                   sort (filter (\<lambda>f. f \<notin> set preferred) all_labels)
      in
      case throughput_vals by_file ''SHA-256'' labels of Inl e \<Rightarrow> Inl e | Inr sha_vals \<Rightarrow>
      case throughput_vals by_file ''PH128'' labels of Inl e \<Rightarrow> Inl e | Inr ph_vals \<Rightarrow>
        let x = [0..<length labels];
            ax = subplots;
            (ax, bars_sha) = ax_bar ax x sha_vals (Some ''SHA-256'');
            (ax, bars_ph) = ax_bar ax x ph_vals (Some ''PH128'');
            ax = ax_set_xticks ax x labels;
            ax = ax_legend ax;
            ax = bar_labels env ax bars_sha;
            ax = bar_labels env ax bars_ph
        in Inr (out_png, ax))"

definition make_throughput_plot :: "'f py_env \<Rightarrow> 'f row list \<Rightarrow> string \<Rightarrow> py_error + 'f saved" where
  "make_throughput_plot env rows out_png =
     (case throughput_figure env rows out_png of Inl e \<Rightarrow> Inl e | Inr fig \<Rightarrow> savefig env fig)"

subsection \<open>The entry point\<close>

text \<open>
  The parsed command line (the chart title is left out with the other captions) and the
  effects of a run in their order: a saved image or a printed line. The result of \<open>main\<close>
  is the list of the effects the run has had and the exception that ended it, \<open>None\<close> for
  a run that completes. An exception of a renderer is not caught: the images saved before
  it stay, and nothing is printed.
\<close>

record args =
  csv :: string
  outdir :: string

datatype 'f effect = Saved "'f saved" | Printed string

definition main ::
  "'f py_env \<Rightarrow> args \<Rightarrow> string list list \<Rightarrow> 'f effect list \<times> py_error option" where
  "main env a table =
     (case read_rows env table of Inl e \<Rightarrow> ([], Some e) | Inr rows \<Rightarrow>
      let base = path_stem env (csv a);
          time_png = path_join env (outdir a) (base @ ''_time.png'');
          speedup_png = path_join env (outdir a) (base @ ''_speedup.png'');
          throughput_png = path_join env (outdir a) (base @ ''_throughput.png'')
      in
      case make_time_plot env rows time_png of Inl e \<Rightarrow> ([], Some e) | Inr s1 \<Rightarrow>
      case make_speedup_plot env rows speedup_png of
        Inl e \<Rightarrow> ([Saved s1], Some e) | Inr s2 \<Rightarrow>
      case make_throughput_plot env rows throughput_png of
        Inl e \<Rightarrow> ([Saved s1, Saved s2], Some e) | Inr s3 \<Rightarrow>
        ([Saved s1, Saved s2, Saved s3,
          Printed ''OK! Arquivos salvos:'',
          Printed ('' - '' @ time_png),
          Printed ('' - '' @ speedup_png),
          Printed ('' - '' @ throughput_png)], None))"

subsection \<open>Notions used to state the properties\<close>

text \<open>
  The record that the index holds for a file and an algorithm, if any; the test of
  \<open>pivot_by_file\<close> on an algorithm name; the text that reaches the parser for the cell of
  a column; a cell that is absent, \<open>None\<close> or made of white space only.
\<close>

definition lookup2 :: "'f index \<Rightarrow> string \<Rightarrow> string \<Rightarrow> 'f row option" where
  "lookup2 by_file f a = (case map_of by_file f of None \<Rightarrow> None | Some algos \<Rightarrow> map_of algos a)"

definition recognized :: "string \<Rightarrow> bool" where
  "recognized a = (a = ''SHA-256'' \<or> a = ''PH128'')"

definition qualifies :: "'f index \<Rightarrow> string \<Rightarrow> bool" where
  "qualifies by_file f =
     (lookup2 by_file f ''SHA-256'' \<noteq> None \<and> lookup2 by_file f ''PH128'' \<noteq> None)"

definition cell_text :: "(string, string option) dict \<Rightarrow> string \<Rightarrow> string" where
  "cell_text r k = strip (or_empty (dict_get r k (Some [])))"

definition blank_cell :: "(string, string option) dict \<Rightarrow> string \<Rightarrow> bool" where
  "blank_cell r k =
     (case map_of r k of None \<Rightarrow> True | Some None \<Rightarrow> True | Some (Some s) \<Rightarrow> list_all is_space s)"



text \<open>
  The output path that \<open>main\<close> derives for a suffix: the output directory joined with the
  stem of the input path, the suffix and the extension \<open>.png\<close>.
\<close>

definition out_path :: "'f py_env \<Rightarrow> args \<Rightarrow> string \<Rightarrow> string" where
  "out_path env a suffix = path_join env (outdir a) ((path_stem env (csv a) @ suffix) @ ''.png'')"

text \<open>The shape of an index: distinct file names, and under each distinct algorithm names.\<close>

definition inner_ok :: "string \<times> (string, 'f row) dict \<Rightarrow> bool" where
  "inner_ok item = (distinct (map fst (snd item)) \<and> list_all (\<lambda>(a, r). recognized a) (snd item))"

definition wf_index :: "'f index \<Rightarrow> bool" where
  "wf_index by_file = (distinct (map fst by_file) \<and> list_all inner_ok by_file)"

text \<open>The entries of the index that each loop keeps.\<close>

definition has_both :: "string \<times> (string, 'f row) dict \<Rightarrow> bool" where
  "has_both item = (has_key (snd item) ''SHA-256'' \<and> has_key (snd item) ''PH128'')"

definition time_keep :: "string \<times> (string, 'f row) dict \<Rightarrow> bool" where
  "time_keep item = (fst item \<noteq> ''TOTAL'' \<and> has_both item)"

definition speedup_keep :: "'f py_env \<Rightarrow> string \<times> (string, 'f row) dict \<Rightarrow> bool" where
  "speedup_keep env item =
     (case (map_of (snd item) ''SHA-256'', map_of (snd item) ''PH128'') of
        (Some s, Some p) \<Rightarrow> f_nonzero env (throughput_mib_s s) \<and> f_nonzero env (throughput_mib_s p)
      | _ \<Rightarrow> False)"

subsection \<open>A reference environment for the examples\<close>

text \<open>
  The examples run the script's functions on concrete tables, which needs concrete
  library functions. \<open>ref_int\<close> reads what \<open>int\<close> accepts in ASCII: white space around, a
  sign, decimal digits, single underscores between digits. \<open>ref_float\<close> reads the plain
  decimal literals (a sign, digits, a point, digits) and \<open>ref_fmt2\<close> writes two decimals,
  ties to even; the floats of the examples are numbers that a binary float holds exactly,
  with exact quotients, so that a real number stands for each. \<open>ref_stem\<close> and \<open>ref_join\<close>
  follow \<open>PurePosixPath\<close> on a normalised path (Python 3.12). \<open>ref_draw\<close> writes every
  figure but one with the tick label \<open>$$\<close>, the empty math text that matplotlib refuses
  with a \<open>ValueError\<close>; the other examples have plain file names and a writable directory.
  The theorems below do not depend on these definitions; only the examples do.
\<close>

definition is_digit :: "char \<Rightarrow> bool" where
  "is_digit c = (let n = (of_char c :: nat) in 48 \<le> n \<and> n \<le> 57)"

definition digit_val :: "char \<Rightarrow> nat" where
  "digit_val c = of_char c - 48"

fun digits_val :: "string \<Rightarrow> nat \<Rightarrow> nat option" where
  "digits_val [] acc = Some acc"
| "digits_val (c # cs) acc =
     (if is_digit c then digits_val cs (10 * acc + digit_val c)
      else if c = CHR ''_'' \<and> cs \<noteq> [] \<and> is_digit (hd cs) then digits_val cs acc
      else None)"

definition unsigned_int :: "string \<Rightarrow> nat option" where
  "unsigned_int s = (if s \<noteq> [] \<and> is_digit (hd s) then digits_val s 0 else None)"

definition ref_int :: "string \<Rightarrow> int option" where
  "ref_int s =
     (case strip s of
        [] \<Rightarrow> None
      | c # cs \<Rightarrow>
          if c = CHR ''-'' then map_option (\<lambda>n. - int n) (unsigned_int cs)
          else if c = CHR ''+'' then map_option int (unsigned_int cs)
          else map_option int (unsigned_int (c # cs)))"

definition ref_float :: "string \<Rightarrow> real option" where
  "ref_float s =
     (let t = strip s;
          neg = (t \<noteq> [] \<and> hd t = CHR ''-'');
          u = (if t \<noteq> [] \<and> (hd t = CHR ''-'' \<or> hd t = CHR ''+'') then tl t else t);
          ip = takeWhile (\<lambda>c. c \<noteq> CHR ''.'') u;
          fp = drop (Suc (length ip)) u
      in if ip \<noteq> [] \<and> list_all is_digit ip \<and> list_all is_digit fp then
           (let n = foldl (\<lambda>a c. 10 * a + digit_val c) 0 (ip @ fp);
                q = of_nat n / (10 ^ length fp)
            in Some (if neg then - q else q))
         else None)"

definition digit_char :: "nat \<Rightarrow> char" where
  "digit_char d = ''0123456789'' ! d"

function show_nat :: "nat \<Rightarrow> string" where
  "show_nat n =
     (if n < 10 then [digit_char n] else show_nat (n div 10) @ [digit_char (n mod 10)])"
  by pat_completeness auto
termination
  by (relation "measure id") auto

declare show_nat.simps [simp del]

definition round_half_even :: "real \<Rightarrow> nat" where
  "round_half_even x =
     (let f = nat \<lfloor>x\<rfloor>; r = x - of_int \<lfloor>x\<rfloor> in
      if r < 1 / 2 then f else if 1 / 2 < r then Suc f else if even f then f else Suc f)"

definition ref_fmt2 :: "real \<Rightarrow> string" where
  "ref_fmt2 q =
     (let n = round_half_even (\<bar>q\<bar> * 100) in
      (if q < 0 then ''-'' else []) @ show_nat (n div 100) @ ''.'' @
      [digit_char (n mod 100 div 10), digit_char (n mod 10)])"

definition ref_stem :: "string \<Rightarrow> string" where
  "ref_stem p =
     (let name = rev (takeWhile (\<lambda>c. c \<noteq> CHR ''/'') (rev p));
          ext = takeWhile (\<lambda>c. c \<noteq> CHR ''.'') (rev name)
      in if length ext < length name \<and> 0 < length ext \<and> Suc (length ext) < length name
         then take (length name - Suc (length ext)) name else name)"

definition ref_join :: "string \<Rightarrow> string \<Rightarrow> string" where
  "ref_join p s =
     (if p = ''.'' then s else if p \<noteq> [] \<and> last p = CHR ''/'' then p @ s else p @ ''/'' @ s)"

definition ref_draw :: "real axes \<Rightarrow> string \<Rightarrow> py_error option" where
  "ref_draw ax out_png = (if ''$$'' \<in> set (categories ax) then Some ValueError else None)"

definition ref_env :: "real py_env" where
  "ref_env = \<lparr> py_int = ref_int, py_float = ref_float, f_zero = 0, f_nonzero = (\<lambda>v. v \<noteq> 0),
               f_div = (\<lambda>a b. a / b), f_fmt2 = ref_fmt2, path_stem = ref_stem,
               path_join = ref_join, draw = ref_draw \<rparr>"

text \<open>
  The table of two rows of the specification, a table whose file name is \<open>$$\<close>, a row of
  the reader with a byte count written as a float, and a list of records with an unknown algorithm, a duplicate, the
  aggregate \<open>TOTAL\<close>, a file with one algorithm only and a zero throughput.
\<close>

definition example_table :: "string list list" where
  "example_table =
     [[''algo'', ''file'', ''B_bytes'', ''bytes'', ''elapsed_ms_med'', ''throughput_mib_s''],
      [''SHA-256'', ''data.bin'', [], ''1048576'', ''100.0'', ''10.0''],
      [''PH128'', ''data.bin'', [], ''1048576'', ''20.0'', ''50.0'']]"

definition dollar_table :: "string list list" where
  "dollar_table =
     [[''algo'', ''file'', ''elapsed_ms_med'', ''throughput_mib_s''],
      [''SHA-256'', ''$$'', ''1'', ''1''],
      [''PH128'', ''$$'', ''1'', ''1'']]"

definition example_cells :: "(string, string option) dict" where
  "example_cells =
     dict_row [''algo'', ''file'', ''B_bytes'', ''bytes'', ''elapsed_ms_med'', ''throughput_mib_s'']
              [''PH128 '', ''a.bin'', ''x'', ''1.5'', ''  '']"

definition rec_of :: "string \<Rightarrow> string \<Rightarrow> real \<Rightarrow> real \<Rightarrow> real row" where
  "rec_of a f e t = \<lparr> algo = a, file_name = f, B_bytes = None, bytes = 0, elapsed_ms_med = e,
                      throughput_mib_s = t, sum_hex = [] \<rparr>"

definition example_rows :: "real row list" where
  "example_rows =
     [rec_of ''SHA-256'' ''zeta.data'' 100 10,
      rec_of ''PH128'' ''zeta.data'' 20 50,
      rec_of ''MD5'' ''zeta.data'' 1 1,
      rec_of ''SHA-256'' ''TOTAL'' 300 30,
      rec_of ''PH128'' ''TOTAL'' 60 150,
      rec_of ''SHA-256'' ''lonely.bin'' 5 5,
      rec_of ''SHA-256'' ''txids.data'' 7 0,
      rec_of ''PH128'' ''txids.data'' 8 4,
      rec_of ''SHA-256'' ''alpha.bin'' 1 2,
      rec_of ''PH128'' ''alpha.bin'' 2 8,
      rec_of ''PH128'' ''zeta.data'' 25 40]"

section \<open>Properties\<close>

subsection \<open>The pivot index\<close>

lemma pivot_step_inner:
  "has_key (if \<not> has_key by_file f then AList.update f [] by_file else by_file) f"
  by (simp add: has_key_def update_conv')

lemma lookup2_pivot_step:
  "lookup2 (pivot_step by_file r) f a =
     (if recognized (algo r) \<and> f = file_name r \<and> a = algo r then Some r else lookup2 by_file f a)"
  by (auto simp: pivot_step_def Let_def has_key_def dict_get_def lookup2_def recognized_def
      update_conv' split: option.splits)

lemma pivot_step_unrecognized: "\<not> recognized (algo r) \<Longrightarrow> pivot_step by_file r = by_file"
  by (simp add: pivot_step_def recognized_def Let_def)

lemma list_all_update:
  "list_all P al \<Longrightarrow> P (k, v) \<Longrightarrow> list_all P (AList.update k v al)"
  by (induction al) auto

lemma inner_ok_lookup:
  assumes "list_all inner_ok by_file"
  shows "inner_ok (f, dict_get by_file f [])"
proof (cases "map_of by_file f")
  case None
  then show ?thesis by (simp add: dict_get_def inner_ok_def)
next
  case (Some d)
  then have "(f, d) \<in> set by_file" by (rule map_of_SomeD)
  with assms have "inner_ok (f, d)" by (simp add: list_all_iff)
  with Some show ?thesis by (simp add: dict_get_def inner_ok_def)
qed

lemma inner_ok_update:
  "inner_ok (f, d) \<Longrightarrow> recognized a \<Longrightarrow> inner_ok (f, AList.update a r d)"
  by (simp add: inner_ok_def distinct_update list_all_update)

lemma wf_pivot_step:
  assumes "wf_index by_file"
  shows "wf_index (pivot_step by_file r)"
proof (cases "recognized (algo r)")
  case False
  with assms show ?thesis by (simp add: pivot_step_unrecognized)
next
  case True
  define b1 where
    "b1 = (if \<not> has_key by_file (file_name r) then AList.update (file_name r) [] by_file
           else by_file)"
  have w1: "wf_index b1"
    using assms by (simp add: b1_def wf_index_def distinct_update list_all_update inner_ok_def)
  have eq: "pivot_step by_file r =
      AList.update (file_name r) (AList.update (algo r) r (dict_get b1 (file_name r) [])) b1"
    using True by (auto simp: pivot_step_def Let_def b1_def recognized_def)
  have "inner_ok (file_name r, AList.update (algo r) r (dict_get b1 (file_name r) []))"
    using w1 True by (simp add: wf_index_def inner_ok_lookup inner_ok_update)
  with w1 show ?thesis
    unfolding eq by (simp add: wf_index_def distinct_update list_all_update)
qed

lemma wf_foldl_pivot: "wf_index by_file \<Longrightarrow> wf_index (foldl pivot_step by_file rows)"
  by (induction rows arbitrary: by_file) (simp_all add: wf_pivot_step)

lemma wf_pivot_by_file: "wf_index (pivot_by_file rows)"
  unfolding pivot_by_file_def by (rule wf_foldl_pivot) (simp add: wf_index_def)

lemma find_append:
  "find P (xs @ ys) = (case find P xs of None \<Rightarrow> find P ys | Some x \<Rightarrow> Some x)"
  by (induction xs) auto

lemma foldl_pivot_lookup2:
  "lookup2 (foldl pivot_step by_file rows) f a =
     (case find (\<lambda>r. recognized (algo r) \<and> file_name r = f \<and> algo r = a) (rev rows) of
        Some r \<Rightarrow> Some r
      | None \<Rightarrow> lookup2 by_file f a)"
proof (induction rows arbitrary: by_file)
  case Nil
  show ?case by simp
next
  case (Cons r rows)
  show ?case
    by (auto simp: Cons.IH lookup2_pivot_step find_append split: option.splits)
qed

lemma lookup2_pivot_by_file:
  "lookup2 (pivot_by_file rows) f a =
     find (\<lambda>r. recognized (algo r) \<and> file_name r = f \<and> algo r = a) (rev rows)"
  unfolding pivot_by_file_def foldl_pivot_lookup2 by (simp add: lookup2_def split: option.splits)

lemma foldl_pivot_filter:
  "foldl pivot_step by_file (filter (\<lambda>r. recognized (algo r)) rows) = foldl pivot_step by_file rows"
  by (induction rows arbitrary: by_file) (simp_all add: pivot_step_unrecognized)

lemma example_pivot:
  "pivot_by_file example_rows =
     [(''zeta.data'', [(''SHA-256'', rec_of ''SHA-256'' ''zeta.data'' 100 10),
                       (''PH128'', rec_of ''PH128'' ''zeta.data'' 25 40)]),
      (''TOTAL'', [(''SHA-256'', rec_of ''SHA-256'' ''TOTAL'' 300 30),
                   (''PH128'', rec_of ''PH128'' ''TOTAL'' 60 150)]),
      (''lonely.bin'', [(''SHA-256'', rec_of ''SHA-256'' ''lonely.bin'' 5 5)]),
      (''txids.data'', [(''SHA-256'', rec_of ''SHA-256'' ''txids.data'' 7 0),
                        (''PH128'', rec_of ''PH128'' ''txids.data'' 8 4)]),
      (''alpha.bin'', [(''SHA-256'', rec_of ''SHA-256'' ''alpha.bin'' 1 2),
                       (''PH128'', rec_of ''PH128'' ''alpha.bin'' 2 8)])]"
  by (simp add: pivot_by_file_def example_rows_def pivot_step_def has_key_def dict_get_def
      rec_of_def Let_def)

text \<open>
  C5. Whatever the records are, every algorithm key of the pivot index is \<open>"SHA-256"\<close> or
  \<open>"PH128"\<close>, and the records with any other algorithm leave no trace: the index is the one
  built from the list without them.
\<close>

theorem pivot_only_recognized:
  "list_all (\<lambda>(f, algos). list_all (\<lambda>(a, r). a = ''SHA-256'' \<or> a = ''PH128'') algos)
     (pivot_by_file rows) \<and>
   pivot_by_file rows =
     pivot_by_file (filter (\<lambda>r. algo r = ''SHA-256'' \<or> algo r = ''PH128'') rows)"
proof
  have "list_all inner_ok (pivot_by_file rows)"
    using wf_pivot_by_file [of rows] by (simp add: wf_index_def)
  then show "list_all (\<lambda>(f, algos). list_all (\<lambda>(a, r). a = ''SHA-256'' \<or> a = ''PH128'') algos)
     (pivot_by_file rows)"
    by (fastforce simp: list_all_iff inner_ok_def recognized_def)
  show "pivot_by_file rows =
     pivot_by_file (filter (\<lambda>r. algo r = ''SHA-256'' \<or> algo r = ''PH128'') rows)"
    using foldl_pivot_filter [of "[]" rows] by (simp add: pivot_by_file_def recognized_def)
qed

theorem pivot_only_recognized_witness:
  "map (\<lambda>(f, algos). (f, map fst algos)) (pivot_by_file example_rows) =
     [(''zeta.data'', [''SHA-256'', ''PH128'']), (''TOTAL'', [''SHA-256'', ''PH128'']),
      (''lonely.bin'', [''SHA-256'']), (''txids.data'', [''SHA-256'', ''PH128'']),
      (''alpha.bin'', [''SHA-256'', ''PH128''])] \<and>
   list_all (\<lambda>(f, algos). list_all (\<lambda>(a, r). a = ''SHA-256'' \<or> a = ''PH128'') algos)
     (pivot_by_file example_rows) \<and>
   pivot_by_file example_rows =
     pivot_by_file (filter (\<lambda>r. algo r = ''SHA-256'' \<or> algo r = ''PH128'') example_rows)"
proof (intro conjI)
  show "map (\<lambda>(f, algos). (f, map fst algos)) (pivot_by_file example_rows) =
     [(''zeta.data'', [''SHA-256'', ''PH128'']), (''TOTAL'', [''SHA-256'', ''PH128'']),
      (''lonely.bin'', [''SHA-256'']), (''txids.data'', [''SHA-256'', ''PH128'']),
      (''alpha.bin'', [''SHA-256'', ''PH128''])]"
    by (simp add: example_pivot)
  show "list_all (\<lambda>(f, algos). list_all (\<lambda>(a, r). a = ''SHA-256'' \<or> a = ''PH128'') algos)
     (pivot_by_file example_rows)"
    using pivot_only_recognized [of example_rows] by (rule conjunct1)
  show "pivot_by_file example_rows =
     pivot_by_file (filter (\<lambda>r. algo r = ''SHA-256'' \<or> algo r = ''PH128'') example_rows)"
    using pivot_only_recognized [of example_rows] by (rule conjunct2)
qed

text \<open>
  C7. The index holds at most one record for a file and an algorithm: the file names are
  distinct, the algorithm names under a file are distinct, and the record found for a
  file and a recognized algorithm is the last record of the input with that file and
  that algorithm. \<open>pivot_by_file\<close> has no other result than the index: nothing is reported
  for the records that were overwritten.
\<close>

theorem pivot_last_wins:
  "distinct (map fst (pivot_by_file rows)) \<and>
   list_all (\<lambda>(f, algos). distinct (map fst algos)) (pivot_by_file rows) \<and>
   lookup2 (pivot_by_file rows) f a =
     (if a = ''SHA-256'' \<or> a = ''PH128''
      then find (\<lambda>r. file_name r = f \<and> algo r = a) (rev rows) else None)"
proof -
  have w: "wf_index (pivot_by_file rows)" by (rule wf_pivot_by_file)
  have 1: "distinct (map fst (pivot_by_file rows))"
    using w by (simp add: wf_index_def)
  have 2: "list_all (\<lambda>(f, algos). distinct (map fst algos)) (pivot_by_file rows)"
    using w by (auto simp: wf_index_def list_all_iff inner_ok_def)
  have 3: "lookup2 (pivot_by_file rows) f a =
     (if a = ''SHA-256'' \<or> a = ''PH128''
      then find (\<lambda>r. file_name r = f \<and> algo r = a) (rev rows) else None)"
  proof (cases "recognized a")
    case True
    have "find (\<lambda>r. recognized (algo r) \<and> file_name r = f \<and> algo r = a) (rev rows) =
          find (\<lambda>r. file_name r = f \<and> algo r = a) (rev rows)"
      using True by (intro find_cong) auto
    with True show ?thesis by (simp add: lookup2_pivot_by_file recognized_def)
  next
    case False
    have "find (\<lambda>r. recognized (algo r) \<and> file_name r = f \<and> algo r = a) (rev rows) = None"
      using False by (auto simp: find_None_iff)
    with False show ?thesis by (simp add: lookup2_pivot_by_file recognized_def)
  qed
  from 1 2 3 show ?thesis by simp
qed

theorem pivot_last_wins_witness:
  "lookup2 (pivot_by_file example_rows) ''zeta.data'' ''PH128'' =
     Some (rec_of ''PH128'' ''zeta.data'' 25 40) \<and>
   find (\<lambda>r. file_name r = ''zeta.data'' \<and> algo r = ''PH128'') (rev example_rows) =
     Some (rec_of ''PH128'' ''zeta.data'' 25 40) \<and>
   distinct (map fst (pivot_by_file example_rows))"
  using pivot_last_wins [of example_rows "''zeta.data''" "''PH128''"]
  by (simp add: example_pivot lookup2_def)

subsection \<open>Loops and drawing calls\<close>

lemma bar_labels_eq:
  "bar_labels env ax bars =
     ax\<lparr> text_calls := text_calls ax @ map (\<lambda>h. (h, f_fmt2 env h)) bars \<rparr>"
  unfolding bar_labels_def by (induction bars arbitrary: ax) (simp_all add: ax_text_def)

lemma lookup2_item:
  "distinct (map fst by_file) \<Longrightarrow> item \<in> set by_file \<Longrightarrow>
     lookup2 by_file (fst item) a = map_of (snd item) a"
  by (cases item) (simp add: lookup2_def)

lemma lookup2_SomeD:
  assumes "lookup2 by_file f a = Some r"
  obtains algos where "(f, algos) \<in> set by_file" and "map_of algos a = Some r"
  using assms by (auto simp: lookup2_def split: option.splits dest: map_of_SomeD)

lemma map_fst_filter:
  "(\<And>x. x \<in> set xs \<Longrightarrow> P x = Q (fst x)) \<Longrightarrow> map fst (filter P xs) = filter Q (map fst xs)"
  by (induction xs) auto

lemma has_both_qualifies:
  "distinct (map fst by_file) \<Longrightarrow> item \<in> set by_file \<Longrightarrow>
     has_both item = qualifies by_file (fst item)"
  by (simp add: has_both_def qualifies_def has_key_def lookup2_item)

lemma qualifies_in_keys: "qualifies by_file f \<Longrightarrow> f \<in> set (map fst by_file)"
  by (auto simp: qualifies_def lookup2_def split: option.splits dest!: map_of_SomeD
      intro: image_eqI [where x = "(f, y)" for y])

lemma list_all2_map_same:
  "(\<And>x. x \<in> set xs \<Longrightarrow> P (f x) (g x)) \<Longrightarrow> list_all2 P (map f xs) (map g xs)"
  by (simp add: list_all2_map1 list_all2_map2 list_all2_same)

subsection \<open>The time comparison chart\<close>

lemma time_body_eq:
  "time_body item (l, s, p) =
     Inr (if time_keep item
          then (l @ [fst item],
                s @ [elapsed_ms_med (the (map_of (snd item) ''SHA-256''))],
                p @ [elapsed_ms_med (the (map_of (snd item) ''PH128''))])
          else (l, s, p))"
  by (cases item)
     (auto simp: time_body_def time_keep_def has_both_def has_key_def subscript_def)

lemma for_each_time:
  "for_each time_body by_file (l, s, p) =
     Inr (l @ map fst (filter time_keep by_file),
          s @ map (\<lambda>it. elapsed_ms_med (the (map_of (snd it) ''SHA-256''))) (filter time_keep by_file),
          p @ map (\<lambda>it. elapsed_ms_med (the (map_of (snd it) ''PH128''))) (filter time_keep by_file))"
  by (induction by_file arbitrary: l s p) (simp_all add: time_body_eq)

lemma time_figure_eq:
  "time_figure env rows out_png =
     (let kept = filter time_keep (pivot_by_file rows);
          labels = map fst kept;
          sha = map (\<lambda>it. elapsed_ms_med (the (map_of (snd it) ''SHA-256''))) kept;
          ph = map (\<lambda>it. elapsed_ms_med (the (map_of (snd it) ''PH128''))) kept;
          x = [0..<length labels]
      in Inr (out_png,
           \<lparr> bar_calls = [(x, sha, Some ''SHA-256''), (x, ph, Some ''PH128'')],
              xticks = (x, labels), legend_drawn = True,
              text_calls = map (\<lambda>h. (h, f_fmt2 env h)) (sha @ ph) \<rparr>))"
  by (simp add: time_figure_def for_each_time Let_def subplots_def ax_bar_def
      ax_set_xticks_def ax_legend_def bar_labels_eq)

lemma time_keep_value:
  assumes "distinct (map fst by_file)" and "item \<in> set by_file" and "time_keep item"
  shows "\<exists>r. lookup2 by_file (fst item) ''SHA-256'' = Some r \<and>
             elapsed_ms_med (the (map_of (snd item) ''SHA-256'')) = elapsed_ms_med r"
    and "\<exists>r. lookup2 by_file (fst item) ''PH128'' = Some r \<and>
             elapsed_ms_med (the (map_of (snd item) ''PH128'')) = elapsed_ms_med r"
  using assms by (auto simp: time_keep_def has_both_def has_key_def lookup2_item)

lemma time_plot_props:
  fixes env :: "'f py_env" and rows :: "'f row list"
  defines "by_file \<equiv> pivot_by_file rows"
  shows "\<exists>ax. time_figure env rows out_png = Inr (out_png, ax) \<and>
     categories ax = filter (\<lambda>f. f \<noteq> ''TOTAL'' \<and> qualifies by_file f) (map fst by_file) \<and>
     list_all2 (\<lambda>f h. \<exists>r. lookup2 by_file f ''SHA-256'' = Some r \<and> h = elapsed_ms_med r)
       (categories ax) (bar_heights ax 0) \<and>
     list_all2 (\<lambda>f h. \<exists>r. lookup2 by_file f ''PH128'' = Some r \<and> h = elapsed_ms_med r)
       (categories ax) (bar_heights ax 1) \<and>
     text_calls ax = map (\<lambda>h. (h, f_fmt2 env h)) (bar_heights ax 0 @ bar_heights ax 1)"
proof -
  have d: "distinct (map fst by_file)"
    using wf_pivot_by_file [of rows] by (simp add: wf_index_def by_file_def)
  define kept where "kept = filter time_keep by_file"
  have k: "\<And>it. it \<in> set kept \<Longrightarrow> it \<in> set by_file \<and> time_keep it"
    by (simp add: kept_def)
  have 1: "map fst kept = filter (\<lambda>f. f \<noteq> ''TOTAL'' \<and> qualifies by_file f) (map fst by_file)"
    unfolding kept_def
    by (rule map_fst_filter) (simp add: time_keep_def has_both_qualifies [OF d])
  have 2: "list_all2 (\<lambda>f h. \<exists>r. lookup2 by_file f ''SHA-256'' = Some r \<and> h = elapsed_ms_med r)
       (map fst kept) (map (\<lambda>it. elapsed_ms_med (the (map_of (snd it) ''SHA-256''))) kept)"
    by (rule list_all2_map_same) (use k time_keep_value(1) [OF d] in blast)
  have 3: "list_all2 (\<lambda>f h. \<exists>r. lookup2 by_file f ''PH128'' = Some r \<and> h = elapsed_ms_med r)
       (map fst kept) (map (\<lambda>it. elapsed_ms_med (the (map_of (snd it) ''PH128''))) kept)"
    by (rule list_all2_map_same) (use k time_keep_value(2) [OF d] in blast)
  show ?thesis
    using 1 2 3
    by (simp add: time_figure_eq Let_def categories_def bar_heights_def
        kept_def [symmetric] by_file_def [symmetric])
qed

subsection \<open>The speedup chart\<close>

lemma speedup_body_eq:
  "speedup_body env item (l, q) =
     Inr (if speedup_keep env item
          then (l @ [fst item],
                q @ [f_div env (throughput_mib_s (the (map_of (snd item) ''PH128'')))
                               (throughput_mib_s (the (map_of (snd item) ''SHA-256'')))])
          else (l, q))"
  by (cases item)
     (auto simp: speedup_body_def speedup_keep_def has_key_def subscript_def truediv_def Let_def
       split: option.splits)

lemma for_each_speedup:
  "for_each (speedup_body env) by_file (l, q) =
     Inr (l @ map fst (filter (speedup_keep env) by_file),
          q @ map (\<lambda>it. f_div env (throughput_mib_s (the (map_of (snd it) ''PH128'')))
                                   (throughput_mib_s (the (map_of (snd it) ''SHA-256''))))
                (filter (speedup_keep env) by_file))"
  by (induction by_file arbitrary: l q) (simp_all add: speedup_body_eq)

lemma speedup_figure_eq:
  "speedup_figure env rows out_png =
     (let kept = filter (speedup_keep env) (pivot_by_file rows);
          labels = map fst kept;
          speedups = map (\<lambda>it. f_div env (throughput_mib_s (the (map_of (snd it) ''PH128'')))
                                         (throughput_mib_s (the (map_of (snd it) ''SHA-256'')))) kept;
          x = [0..<length labels]
      in Inr (out_png,
           \<lparr> bar_calls = [(x, speedups, None)], xticks = (x, labels), legend_drawn = False,
              text_calls = map (\<lambda>h. (h, f_fmt2 env h)) speedups \<rparr>))"
  by (simp add: speedup_figure_def for_each_speedup Let_def subplots_def ax_bar_def
      ax_set_xticks_def bar_labels_eq)

lemma speedup_keep_iff:
  assumes "distinct (map fst by_file)" and "item \<in> set by_file"
  shows "speedup_keep env item \<longleftrightarrow>
     (\<exists>s p. lookup2 by_file (fst item) ''SHA-256'' = Some s \<and>
            lookup2 by_file (fst item) ''PH128'' = Some p \<and>
            f_nonzero env (throughput_mib_s s) \<and> f_nonzero env (throughput_mib_s p))"
  using assms by (auto simp: speedup_keep_def lookup2_item split: option.splits)

lemma speedup_plot_props:
  fixes env :: "'f py_env" and rows :: "'f row list"
  defines "by_file \<equiv> pivot_by_file rows"
  shows "\<exists>ax. speedup_figure env rows out_png = Inr (out_png, ax) \<and>
     categories ax =
       filter (\<lambda>f. \<exists>s p. lookup2 by_file f ''SHA-256'' = Some s \<and>
                          lookup2 by_file f ''PH128'' = Some p \<and>
                          f_nonzero env (throughput_mib_s s) \<and>
                          f_nonzero env (throughput_mib_s p)) (map fst by_file) \<and>
     list_all2 (\<lambda>f h. \<exists>s p. lookup2 by_file f ''SHA-256'' = Some s \<and>
                             lookup2 by_file f ''PH128'' = Some p \<and>
                             h = f_div env (throughput_mib_s p) (throughput_mib_s s))
       (categories ax) (bar_heights ax 0) \<and>
     text_calls ax = map (\<lambda>h. (h, f_fmt2 env h)) (bar_heights ax 0)"
proof -
  have d: "distinct (map fst by_file)"
    using wf_pivot_by_file [of rows] by (simp add: wf_index_def by_file_def)
  define kept where "kept = filter (speedup_keep env) by_file"
  have 1: "map fst kept =
       filter (\<lambda>f. \<exists>s p. lookup2 by_file f ''SHA-256'' = Some s \<and>
                          lookup2 by_file f ''PH128'' = Some p \<and>
                          f_nonzero env (throughput_mib_s s) \<and>
                          f_nonzero env (throughput_mib_s p)) (map fst by_file)"
    unfolding kept_def by (rule map_fst_filter) (rule speedup_keep_iff [OF d])
  have 2: "list_all2 (\<lambda>f h. \<exists>s p. lookup2 by_file f ''SHA-256'' = Some s \<and>
                             lookup2 by_file f ''PH128'' = Some p \<and>
                             h = f_div env (throughput_mib_s p) (throughput_mib_s s))
       (map fst kept)
       (map (\<lambda>it. f_div env (throughput_mib_s (the (map_of (snd it) ''PH128'')))
                             (throughput_mib_s (the (map_of (snd it) ''SHA-256'')))) kept)"
  proof (rule list_all2_map_same)
    fix it assume "it \<in> set kept"
    then have i: "it \<in> set by_file" and "speedup_keep env it" by (simp_all add: kept_def)
    then obtain s p where "map_of (snd it) ''SHA-256'' = Some s" "map_of (snd it) ''PH128'' = Some p"
      by (auto simp: speedup_keep_def split: option.splits)
    then show "\<exists>s p. lookup2 by_file (fst it) ''SHA-256'' = Some s \<and>
                     lookup2 by_file (fst it) ''PH128'' = Some p \<and>
                     f_div env (throughput_mib_s (the (map_of (snd it) ''PH128'')))
                               (throughput_mib_s (the (map_of (snd it) ''SHA-256''))) =
                     f_div env (throughput_mib_s p) (throughput_mib_s s)"
      by (simp add: lookup2_item [OF d i])
  qed
  show ?thesis
    using 1 2
    by (simp add: speedup_figure_eq Let_def categories_def bar_heights_def
        kept_def [symmetric] by_file_def [symmetric])
qed

subsection \<open>The absolute throughput chart\<close>

lemma throughput_vals_acc:
  assumes "\<And>f. f \<in> set labels \<Longrightarrow> lookup2 by_file f a \<noteq> None"
  shows "for_each (\<lambda>f vals.
            case subscript by_file f of Inl e \<Rightarrow> Inl e | Inr algos \<Rightarrow>
            case subscript algos a of Inl e \<Rightarrow> Inl e | Inr r \<Rightarrow>
              Inr (vals @ [throughput_mib_s r])) labels vals0 =
         Inr (vals0 @ map (\<lambda>f. throughput_mib_s (the (lookup2 by_file f a))) labels)"
  using assms
proof (induction labels arbitrary: vals0)
  case Nil
  show ?case by simp
next
  case (Cons f labels)
  from Cons.prems [of f] obtain algos r where "map_of by_file f = Some algos" "map_of algos a = Some r"
    by (auto simp: lookup2_def split: option.splits)
  then show ?case
    using Cons.IH [of "vals0 @ [throughput_mib_s r]"] Cons.prems
    by (simp add: subscript_def lookup2_def)
qed

lemma throughput_vals_eq:
  assumes "\<And>f. f \<in> set labels \<Longrightarrow> lookup2 by_file f a \<noteq> None"
  shows "throughput_vals by_file a labels =
         Inr (map (\<lambda>f. throughput_mib_s (the (lookup2 by_file f a))) labels)"
  unfolding throughput_vals_def using throughput_vals_acc [OF assms, of labels "[]"] by simp

text \<open>The labels of the throughput chart, as \<open>throughput_figure\<close> computes them.\<close>

lemma all_labels_eq:
  assumes "distinct (map fst by_file)"
  shows "map fst (filter (\<lambda>(fname, algos). has_key algos ''SHA-256'' \<and> has_key algos ''PH128'') by_file) =
         filter (qualifies by_file) (map fst by_file)"
proof (rule map_fst_filter)
  fix x assume x: "x \<in> set by_file"
  have "has_both x = qualifies by_file (fst x)"
    by (rule has_both_qualifies [OF assms x])
  then show "(case x of (fname, algos) \<Rightarrow> has_key algos ''SHA-256'' \<and> has_key algos ''PH128'') =
             qualifies by_file (fst x)"
    by (simp add: has_both_def case_prod_beta)
qed

lemma throughput_figure_eq:
  fixes env :: "'f py_env" and rows :: "'f row list"
  defines "by_file \<equiv> pivot_by_file rows"
  shows "throughput_figure env rows out_png =
     (let labels = filter (qualifies by_file) preferred @
                   sort (filter (\<lambda>f. f \<notin> set preferred) (filter (qualifies by_file) (map fst by_file)));
          sha = map (\<lambda>f. throughput_mib_s (the (lookup2 by_file f ''SHA-256''))) labels;
          ph = map (\<lambda>f. throughput_mib_s (the (lookup2 by_file f ''PH128''))) labels;
          x = [0..<length labels]
      in Inr (out_png,
           \<lparr> bar_calls = [(x, sha, Some ''SHA-256''), (x, ph, Some ''PH128'')],
              xticks = (x, labels), legend_drawn = True,
              text_calls = map (\<lambda>h. (h, f_fmt2 env h)) (sha @ ph) \<rparr>))"
proof -
  have d: "distinct (map fst by_file)"
    using wf_pivot_by_file [of rows] by (simp add: wf_index_def by_file_def)
  define all_labels where "all_labels = filter (qualifies by_file) (map fst by_file)"
  define labels where
    "labels = filter (\<lambda>f. f \<in> set all_labels) preferred @
              sort (filter (\<lambda>f. f \<notin> set preferred) all_labels)"
  have mem: "\<And>f. f \<in> set all_labels \<longleftrightarrow> qualifies by_file f"
    using qualifies_in_keys [of by_file] by (auto simp: all_labels_def)
  have q: "\<And>f. f \<in> set labels \<Longrightarrow> qualifies by_file f"
    by (auto simp: labels_def mem)
  have sha: "throughput_vals by_file ''SHA-256'' labels =
       Inr (map (\<lambda>f. throughput_mib_s (the (lookup2 by_file f ''SHA-256''))) labels)"
    by (rule throughput_vals_eq) (use q in \<open>simp add: qualifies_def\<close>)
  have ph: "throughput_vals by_file ''PH128'' labels =
       Inr (map (\<lambda>f. throughput_mib_s (the (lookup2 by_file f ''PH128''))) labels)"
    by (rule throughput_vals_eq) (use q in \<open>simp add: qualifies_def\<close>)
  have l: "labels = filter (qualifies by_file) preferred @
              sort (filter (\<lambda>f. f \<notin> set preferred) (filter (qualifies by_file) (map fst by_file)))"
    by (simp add: labels_def mem all_labels_def [symmetric])
  have "throughput_figure env rows out_png =
      (let x = [0..<length labels];
           sha = map (\<lambda>f. throughput_mib_s (the (lookup2 by_file f ''SHA-256''))) labels;
           ph = map (\<lambda>f. throughput_mib_s (the (lookup2 by_file f ''PH128''))) labels
       in Inr (out_png,
           \<lparr> bar_calls = [(x, sha, Some ''SHA-256''), (x, ph, Some ''PH128'')],
              xticks = (x, labels), legend_drawn = True,
              text_calls = map (\<lambda>h. (h, f_fmt2 env h)) (sha @ ph) \<rparr>))"
    unfolding throughput_figure_def by_file_def [symmetric] Let_def
      all_labels_eq [OF d] all_labels_def [symmetric] labels_def [symmetric] sha ph
    by (simp add: subplots_def ax_bar_def ax_set_xticks_def ax_legend_def bar_labels_eq)
  then show ?thesis by (simp add: Let_def l)
qed

lemma throughput_plot_props:
  fixes env :: "'f py_env" and rows :: "'f row list"
  defines "by_file \<equiv> pivot_by_file rows"
  shows "\<exists>ax. throughput_figure env rows out_png = Inr (out_png, ax) \<and>
     categories ax = filter (qualifies by_file) preferred @
       sort (filter (\<lambda>f. f \<notin> set preferred) (filter (qualifies by_file) (map fst by_file))) \<and>
     list_all2 (\<lambda>f h. \<exists>r. lookup2 by_file f ''SHA-256'' = Some r \<and> h = throughput_mib_s r)
       (categories ax) (bar_heights ax 0) \<and>
     list_all2 (\<lambda>f h. \<exists>r. lookup2 by_file f ''PH128'' = Some r \<and> h = throughput_mib_s r)
       (categories ax) (bar_heights ax 1) \<and>
     text_calls ax = map (\<lambda>h. (h, f_fmt2 env h)) (bar_heights ax 0 @ bar_heights ax 1)"
proof -
  define labels where "labels = filter (qualifies by_file) preferred @
       sort (filter (\<lambda>f. f \<notin> set preferred) (filter (qualifies by_file) (map fst by_file)))"
  have q: "\<And>f. f \<in> set labels \<Longrightarrow> qualifies by_file f"
    by (auto simp: labels_def)
  have 1: "list_all2 (\<lambda>f h. \<exists>r. lookup2 by_file f ''SHA-256'' = Some r \<and> h = throughput_mib_s r)
       labels (map (\<lambda>f. throughput_mib_s (the (lookup2 by_file f ''SHA-256''))) labels)"
    using list_all2_map_same [where f = "\<lambda>f. f" and xs = labels] q
    by (fastforce simp: qualifies_def list_all2_map2 list_all2_same)
  have 2: "list_all2 (\<lambda>f h. \<exists>r. lookup2 by_file f ''PH128'' = Some r \<and> h = throughput_mib_s r)
       labels (map (\<lambda>f. throughput_mib_s (the (lookup2 by_file f ''PH128''))) labels)"
    using q by (fastforce simp: qualifies_def list_all2_map2 list_all2_same)
  have eq: "throughput_figure env rows out_png =
      Inr (out_png,
           \<lparr> bar_calls =
                [([0..<length labels],
                  map (\<lambda>f. throughput_mib_s (the (lookup2 by_file f ''SHA-256''))) labels,
                  Some ''SHA-256''),
                 ([0..<length labels],
                  map (\<lambda>f. throughput_mib_s (the (lookup2 by_file f ''PH128''))) labels,
                  Some ''PH128'')],
              xticks = ([0..<length labels], labels), legend_drawn = True,
              text_calls = map (\<lambda>h. (h, f_fmt2 env h))
                (map (\<lambda>f. throughput_mib_s (the (lookup2 by_file f ''SHA-256''))) labels @
                 map (\<lambda>f. throughput_mib_s (the (lookup2 by_file f ''PH128''))) labels) \<rparr>)"
    unfolding throughput_figure_eq Let_def
    unfolding by_file_def [symmetric]
    unfolding labels_def [symmetric] ..
  show ?thesis
    unfolding eq labels_def [symmetric]
    using 1 2 by (simp add: categories_def bar_heights_def)
qed

subsection \<open>The charts of the example\<close>

lemma fmt_examples:
  "ref_fmt2 0 = ''0.00''" "ref_fmt2 1 = ''1.00''" "ref_fmt2 2 = ''2.00''"
  "ref_fmt2 4 = ''4.00''" "ref_fmt2 5 = ''5.00''" "ref_fmt2 7 = ''7.00''"
  "ref_fmt2 8 = ''8.00''" "ref_fmt2 10 = ''10.00''" "ref_fmt2 20 = ''20.00''"
  "ref_fmt2 25 = ''25.00''" "ref_fmt2 30 = ''30.00''" "ref_fmt2 40 = ''40.00''"
  "ref_fmt2 50 = ''50.00''" "ref_fmt2 100 = ''100.00''" "ref_fmt2 150 = ''150.00''"
  by (simp_all add: ref_fmt2_def round_half_even_def show_nat.simps digit_char_def)

lemma example_time:
  "time_figure ref_env example_rows p =
     Inr (p, \<lparr> bar_calls = [([0, 1, 2], [100, 7, 1], Some ''SHA-256''),
                            ([0, 1, 2], [25, 8, 2], Some ''PH128'')],
               xticks = ([0, 1, 2], [''zeta.data'', ''txids.data'', ''alpha.bin'']),
               legend_drawn = True,
               text_calls = [(100, ''100.00''), (7, ''7.00''), (1, ''1.00''),
                             (25, ''25.00''), (8, ''8.00''), (2, ''2.00'')] \<rparr>)"
  by (simp add: time_figure_eq example_pivot time_keep_def has_both_def has_key_def Let_def
      rec_of_def ref_env_def fmt_examples)

lemma example_speedup:
  "speedup_figure ref_env example_rows p =
     Inr (p, \<lparr> bar_calls = [([0, 1, 2], [4, 5, 4], None)],
               xticks = ([0, 1, 2], [''zeta.data'', ''TOTAL'', ''alpha.bin'']),
               legend_drawn = False,
               text_calls = [(4, ''4.00''), (5, ''5.00''), (4, ''4.00'')] \<rparr>)"
  by (simp add: speedup_figure_eq example_pivot speedup_keep_def Let_def
      rec_of_def ref_env_def fmt_examples)

lemma example_qualifying:
  "filter (qualifies (pivot_by_file example_rows)) (map fst (pivot_by_file example_rows)) =
     [''zeta.data'', ''TOTAL'', ''txids.data'', ''alpha.bin'']"
  "filter (qualifies (pivot_by_file example_rows)) preferred = [''txids.data'', ''TOTAL'']"
  by (simp_all add: example_pivot qualifies_def lookup2_def preferred_def)

lemma example_rest:
  "sort (filter (\<lambda>f. f \<notin> set preferred)
     [''zeta.data'', ''TOTAL'', ''txids.data'', ''alpha.bin'']) = [''alpha.bin'', ''zeta.data'']"
  by (simp add: preferred_def)

lemma example_throughput:
  "throughput_figure ref_env example_rows p =
     Inr (p, \<lparr> bar_calls = [([0, 1, 2, 3], [0, 30, 2, 10], Some ''SHA-256''),
                            ([0, 1, 2, 3], [4, 150, 8, 40], Some ''PH128'')],
               xticks = ([0, 1, 2, 3], [''txids.data'', ''TOTAL'', ''alpha.bin'', ''zeta.data'']),
               legend_drawn = True,
               text_calls = [(0, ''0.00''), (30, ''30.00''), (2, ''2.00''), (10, ''10.00''),
                             (4, ''4.00''), (150, ''150.00''), (8, ''8.00''),
                             (40, ''40.00'')] \<rparr>)"
  unfolding throughput_figure_eq example_qualifying example_rest
  by (simp add: Let_def example_pivot lookup2_def rec_of_def ref_env_def fmt_examples)

lemma example_lookups:
  "lookup2 (pivot_by_file example_rows) ''zeta.data'' ''SHA-256'' =
     Some (rec_of ''SHA-256'' ''zeta.data'' 100 10)"
  "lookup2 (pivot_by_file example_rows) ''zeta.data'' ''PH128'' =
     Some (rec_of ''PH128'' ''zeta.data'' 25 40)"
  "lookup2 (pivot_by_file example_rows) ''TOTAL'' ''SHA-256'' =
     Some (rec_of ''SHA-256'' ''TOTAL'' 300 30)"
  "lookup2 (pivot_by_file example_rows) ''TOTAL'' ''PH128'' =
     Some (rec_of ''PH128'' ''TOTAL'' 60 150)"
  "lookup2 (pivot_by_file example_rows) ''lonely.bin'' ''SHA-256'' =
     Some (rec_of ''SHA-256'' ''lonely.bin'' 5 5)"
  "lookup2 (pivot_by_file example_rows) ''lonely.bin'' ''PH128'' = None"
  "lookup2 (pivot_by_file example_rows) ''txids.data'' ''SHA-256'' =
     Some (rec_of ''SHA-256'' ''txids.data'' 7 0)"
  "lookup2 (pivot_by_file example_rows) ''txids.data'' ''PH128'' =
     Some (rec_of ''PH128'' ''txids.data'' 8 4)"
  "lookup2 (pivot_by_file example_rows) ''alpha.bin'' ''SHA-256'' =
     Some (rec_of ''SHA-256'' ''alpha.bin'' 1 2)"
  "lookup2 (pivot_by_file example_rows) ''alpha.bin'' ''PH128'' =
     Some (rec_of ''PH128'' ''alpha.bin'' 2 8)"
  by (simp_all add: example_pivot lookup2_def)

subsection \<open>The claims about the charts\<close>

lemma make_plot_savefig:
  "time_figure env rows p = Inr fig \<Longrightarrow> make_time_plot env rows p = savefig env fig"
  "speedup_figure env rows p = Inr fig \<Longrightarrow> make_speedup_plot env rows p = savefig env fig"
  "throughput_figure env rows p = Inr fig \<Longrightarrow> make_throughput_plot env rows p = savefig env fig"
  by (simp_all add: make_time_plot_def make_speedup_plot_def make_throughput_plot_def)

lemma ref_savefig:
  "''$$'' \<notin> set (categories ax) \<Longrightarrow> savefig ref_env (p, ax) = Inr (p, ax)"
  by (simp add: savefig_def ref_env_def ref_draw_def)

text \<open>
  C1. The speedup renderer builds its figure without failing and hands it to the drawing,
  whose result is the result of the renderer. A file name (\<open>"TOTAL"\<close> like any other) is one
  of the categories of that figure exactly when the index holds a record of that file for \<open>"SHA-256"\<close> and one
  for \<open>"PH128"\<close> and both throughputs are non-zero. No category is repeated, and the bar
  of a category is the quotient of the two stored throughputs, \<open>"PH128"\<close> over
  \<open>"SHA-256"\<close>, computed from the values as they are stored.
\<close>

theorem speedup_plot_categories:
  "\<exists>ax. speedup_figure env rows out_png = Inr (out_png, ax) \<and>
     make_speedup_plot env rows out_png = savefig env (out_png, ax) \<and>
     set (categories ax) =
       {f. \<exists>s p. lookup2 (pivot_by_file rows) f ''SHA-256'' = Some s \<and>
                  lookup2 (pivot_by_file rows) f ''PH128'' = Some p \<and>
                  f_nonzero env (throughput_mib_s s) \<and> f_nonzero env (throughput_mib_s p)} \<and>
     distinct (categories ax) \<and>
     list_all2 (\<lambda>f h. \<exists>s p. lookup2 (pivot_by_file rows) f ''SHA-256'' = Some s \<and>
                             lookup2 (pivot_by_file rows) f ''PH128'' = Some p \<and>
                             h = f_div env (throughput_mib_s p) (throughput_mib_s s))
       (categories ax) (bar_heights ax 0)"
proof -
  define by_file where "by_file = pivot_by_file rows"
  define P where "P = (\<lambda>f. \<exists>s p. lookup2 by_file f ''SHA-256'' = Some s \<and>
                  lookup2 by_file f ''PH128'' = Some p \<and>
                  f_nonzero env (throughput_mib_s s) \<and> f_nonzero env (throughput_mib_s p))"
  have d: "distinct (map fst by_file)"
    using wf_pivot_by_file [of rows] by (simp add: wf_index_def by_file_def)
  from speedup_plot_props [of env rows out_png]
  obtain ax where ax: "speedup_figure env rows out_png = Inr (out_png, ax)"
    and c: "categories ax = filter P (map fst by_file)"
    and v: "list_all2 (\<lambda>f h. \<exists>s p. lookup2 by_file f ''SHA-256'' = Some s \<and>
                             lookup2 by_file f ''PH128'' = Some p \<and>
                             h = f_div env (throughput_mib_s p) (throughput_mib_s s))
       (categories ax) (bar_heights ax 0)"
    unfolding by_file_def P_def by blast
  have "P f \<Longrightarrow> f \<in> set (map fst by_file)" for f
    unfolding P_def by (elim exE conjE lookup2_SomeD) force
  then have s: "set (categories ax) = {f. P f}"
    unfolding c by auto
  have di: "distinct (categories ax)"
    unfolding c using d by simp
  have m: "make_speedup_plot env rows out_png = savefig env (out_png, ax)"
    using ax by (rule make_plot_savefig)
  from ax m s di v show ?thesis
    unfolding by_file_def P_def by blast
qed

theorem speedup_plot_categories_witness:
  "\<exists>ax. make_speedup_plot ref_env example_rows ''s.png'' = Inr (''s.png'', ax) \<and>
     categories ax = [''zeta.data'', ''TOTAL'', ''alpha.bin''] \<and>
     bar_heights ax 0 = [40 / 10, 150 / 30, 8 / 2] \<and>
     set (categories ax) =
       {f. \<exists>s p. lookup2 (pivot_by_file example_rows) f ''SHA-256'' = Some s \<and>
                  lookup2 (pivot_by_file example_rows) f ''PH128'' = Some p \<and>
                  f_nonzero ref_env (throughput_mib_s s) \<and>
                  f_nonzero ref_env (throughput_mib_s p)}"
proof -
  from speedup_plot_categories [of ref_env example_rows "''s.png''"]
  obtain ax where 1: "speedup_figure ref_env example_rows ''s.png'' = Inr (''s.png'', ax)"
    and m: "make_speedup_plot ref_env example_rows ''s.png'' = savefig ref_env (''s.png'', ax)"
    and 2: "set (categories ax) =
       {f. \<exists>s p. lookup2 (pivot_by_file example_rows) f ''SHA-256'' = Some s \<and>
                  lookup2 (pivot_by_file example_rows) f ''PH128'' = Some p \<and>
                  f_nonzero ref_env (throughput_mib_s s) \<and>
                  f_nonzero ref_env (throughput_mib_s p)}"
    by (elim exE conjE)
  from 1 have 3: "categories ax = [''zeta.data'', ''TOTAL'', ''alpha.bin'']"
    and 4: "bar_heights ax 0 = [40 / 10, 150 / 30, 8 / 2]"
    unfolding example_speedup by (auto simp: categories_def bar_heights_def)
  have 5: "make_speedup_plot ref_env example_rows ''s.png'' = Inr (''s.png'', ax)"
    unfolding m by (rule ref_savefig) (simp add: 3)
  from 5 2 3 4 show ?thesis by blast
qed

text \<open>
  C2. The time renderer builds its figure without failing and hands it to the drawing,
  whose result is the result of the renderer. The categories of that figure are the file names of the index other
  than \<open>"TOTAL"\<close> that have a record for both algorithms, in the order of the index; the
  two bars of a category are the median times of its \<open>"SHA-256"\<close> record and of its
  \<open>"PH128"\<close> record; and the text above each bar is its height with two decimals.
\<close>

theorem time_plot_categories:
  "\<exists>ax. time_figure env rows out_png = Inr (out_png, ax) \<and>
     make_time_plot env rows out_png = savefig env (out_png, ax) \<and>
     categories ax =
       filter (\<lambda>f. f \<noteq> ''TOTAL'' \<and> lookup2 (pivot_by_file rows) f ''SHA-256'' \<noteq> None \<and>
                   lookup2 (pivot_by_file rows) f ''PH128'' \<noteq> None)
         (map fst (pivot_by_file rows)) \<and>
     list_all2 (\<lambda>f h. \<exists>r. lookup2 (pivot_by_file rows) f ''SHA-256'' = Some r \<and>
                           h = elapsed_ms_med r)
       (categories ax) (bar_heights ax 0) \<and>
     list_all2 (\<lambda>f h. \<exists>r. lookup2 (pivot_by_file rows) f ''PH128'' = Some r \<and>
                           h = elapsed_ms_med r)
       (categories ax) (bar_heights ax 1) \<and>
     text_calls ax = map (\<lambda>h. (h, f_fmt2 env h)) (bar_heights ax 0 @ bar_heights ax 1)"
proof -
  from time_plot_props [of env rows out_png]
  obtain ax where ax: "time_figure env rows out_png = Inr (out_png, ax)"
    and rest: "categories ax =
       filter (\<lambda>f. f \<noteq> ''TOTAL'' \<and> lookup2 (pivot_by_file rows) f ''SHA-256'' \<noteq> None \<and>
                   lookup2 (pivot_by_file rows) f ''PH128'' \<noteq> None)
         (map fst (pivot_by_file rows)) \<and>
     list_all2 (\<lambda>f h. \<exists>r. lookup2 (pivot_by_file rows) f ''SHA-256'' = Some r \<and>
                           h = elapsed_ms_med r)
       (categories ax) (bar_heights ax 0) \<and>
     list_all2 (\<lambda>f h. \<exists>r. lookup2 (pivot_by_file rows) f ''PH128'' = Some r \<and>
                           h = elapsed_ms_med r)
       (categories ax) (bar_heights ax 1) \<and>
     text_calls ax = map (\<lambda>h. (h, f_fmt2 env h)) (bar_heights ax 0 @ bar_heights ax 1)"
    unfolding qualifies_def by (elim exE conjE) (rule that, assumption, intro conjI)
  have m: "make_time_plot env rows out_png = savefig env (out_png, ax)"
    using ax by (rule make_plot_savefig)
  from ax m rest show ?thesis by blast
qed

theorem time_plot_categories_witness:
  "\<exists>ax. make_time_plot ref_env example_rows ''t.png'' = Inr (''t.png'', ax) \<and>
     categories ax = [''zeta.data'', ''txids.data'', ''alpha.bin''] \<and>
     bar_heights ax 0 = [100, 7, 1] \<and>
     bar_heights ax 1 = [25, 8, 2] \<and>
     text_calls ax = [(100, ''100.00''), (7, ''7.00''), (1, ''1.00''),
                      (25, ''25.00''), (8, ''8.00''), (2, ''2.00'')] \<and>
     text_calls ax = map (\<lambda>h. (h, f_fmt2 ref_env h)) (bar_heights ax 0 @ bar_heights ax 1)"
proof -
  from time_plot_categories [of ref_env example_rows "''t.png''"]
  obtain ax where 1: "time_figure ref_env example_rows ''t.png'' = Inr (''t.png'', ax)"
    and m: "make_time_plot ref_env example_rows ''t.png'' = savefig ref_env (''t.png'', ax)"
    and 2: "text_calls ax =
              map (\<lambda>h. (h, f_fmt2 ref_env h)) (bar_heights ax 0 @ bar_heights ax 1)"
    by (elim exE conjE)
  from 1 have 3: "categories ax = [''zeta.data'', ''txids.data'', ''alpha.bin'']"
    and 4: "bar_heights ax 0 = [100, 7, 1]"
    and 5: "bar_heights ax 1 = [25, 8, 2]"
    and 6: "text_calls ax = [(100, ''100.00''), (7, ''7.00''), (1, ''1.00''),
                             (25, ''25.00''), (8, ''8.00''), (2, ''2.00'')]"
    unfolding example_time by (auto simp: categories_def bar_heights_def)
  have 7: "make_time_plot ref_env example_rows ''t.png'' = Inr (''t.png'', ax)"
    unfolding m by (rule ref_savefig) (simp add: 3)
  from 7 2 3 4 5 6 show ?thesis by blast
qed

text \<open>
  C3. The throughput renderer builds its figure without failing and hands it to the
  drawing, whose result is the result of the renderer. The categories of that figure are
  first the entries of the
  preferred list that have a record for both algorithms, in the order of that list, then
  the other file names with both records, without repetition and in increasing
  lexicographic order (strings compared code point by code point). So a category of the
  preferred list always comes before a category outside it.
\<close>

theorem throughput_plot_order:
  "\<exists>ax rest. throughput_figure env rows out_png = Inr (out_png, ax) \<and>
     make_throughput_plot env rows out_png = savefig env (out_png, ax) \<and>
     categories ax = filter (qualifies (pivot_by_file rows)) preferred @ rest \<and>
     set rest = {f. qualifies (pivot_by_file rows) f \<and> f \<notin> set preferred} \<and>
     sorted rest \<and> distinct rest \<and>
     (\<forall>i j. i < length (categories ax) \<and> j < length (categories ax) \<and>
            categories ax ! i \<in> set preferred \<and> categories ax ! j \<notin> set preferred
            \<longrightarrow> i < j)"
proof -
  define by_file where "by_file = pivot_by_file rows"
  define ps where "ps = filter (qualifies by_file) preferred"
  define rest where
    "rest = sort (filter (\<lambda>f. f \<notin> set preferred) (filter (qualifies by_file) (map fst by_file)))"
  have d: "distinct (map fst by_file)"
    using wf_pivot_by_file [of rows] by (simp add: wf_index_def by_file_def)
  from throughput_plot_props [of env rows out_png]
  obtain ax where ax: "throughput_figure env rows out_png = Inr (out_png, ax)"
    and c: "categories ax = ps @ rest"
    unfolding by_file_def ps_def rest_def by blast
  have s: "set rest = {f. qualifies by_file f \<and> f \<notin> set preferred}"
    using qualifies_in_keys [of by_file] by (auto simp: rest_def)
  have so: "sorted rest" by (simp add: rest_def)
  have di: "distinct rest" using d by (simp add: rest_def)
  have ord: "i < j"
    if "i < length (ps @ rest)" "j < length (ps @ rest)"
       "(ps @ rest) ! i \<in> set preferred" "(ps @ rest) ! j \<notin> set preferred" for i j
  proof -
    have i: "i < length ps"
    proof (rule ccontr)
      assume "\<not> i < length ps"
      with that(1) have "(ps @ rest) ! i \<in> set rest" by (simp add: nth_append)
      with s that(3) show False by simp
    qed
    have "\<not> j < length ps"
    proof
      assume "j < length ps"
      then have "(ps @ rest) ! j \<in> set ps" by (simp add: nth_append)
      with that(4) show False by (simp add: ps_def)
    qed
    with i show ?thesis by simp
  qed
  have m: "make_throughput_plot env rows out_png = savefig env (out_png, ax)"
    using ax by (rule make_plot_savefig)
  have "throughput_figure env rows out_png = Inr (out_png, ax) \<and>
     make_throughput_plot env rows out_png = savefig env (out_png, ax) \<and>
     categories ax = ps @ rest \<and>
     set rest = {f. qualifies by_file f \<and> f \<notin> set preferred} \<and>
     sorted rest \<and> distinct rest \<and>
     (\<forall>i j. i < length (categories ax) \<and> j < length (categories ax) \<and>
            categories ax ! i \<in> set preferred \<and> categories ax ! j \<notin> set preferred
            \<longrightarrow> i < j)"
    unfolding c using ax m s so di ord by simp
  then show ?thesis
    unfolding by_file_def ps_def by (intro exI)
qed

theorem throughput_plot_order_witness:
  "\<exists>ax rest. make_throughput_plot ref_env example_rows ''a.png'' = Inr (''a.png'', ax) \<and>
     categories ax = [''txids.data'', ''TOTAL'', ''alpha.bin'', ''zeta.data''] \<and>
     categories ax = [''txids.data'', ''TOTAL''] @ rest \<and>
     rest = [''alpha.bin'', ''zeta.data''] \<and> sorted rest \<and> distinct rest"
proof -
  from throughput_plot_order [of ref_env example_rows "''a.png''"]
  obtain ax rest
    where 1: "throughput_figure ref_env example_rows ''a.png'' = Inr (''a.png'', ax)"
    and m: "make_throughput_plot ref_env example_rows ''a.png'' = savefig ref_env (''a.png'', ax)"
    and 2: "categories ax = filter (qualifies (pivot_by_file example_rows)) preferred @ rest"
    and 3: "sorted rest" and 4: "distinct rest"
    by (elim exE conjE)
  from 1 have 5: "categories ax = [''txids.data'', ''TOTAL'', ''alpha.bin'', ''zeta.data'']"
    unfolding example_throughput by (auto simp: categories_def)
  from 2 have 7: "categories ax = [''txids.data'', ''TOTAL''] @ rest"
    unfolding example_qualifying .
  from 5 7 have 6: "rest = [''alpha.bin'', ''zeta.data'']"
    by simp
  have 8: "make_throughput_plot ref_env example_rows ''a.png'' = Inr (''a.png'', ax)"
    unfolding m by (rule ref_savefig) (simp add: 5)
  from 8 3 4 5 6 7 show ?thesis by (intro exI conjI)
qed

lemma aligned_from_list_all2:
  assumes "list_all2 (\<lambda>f h. \<exists>r. L f a = Some r \<and> h = g r) cs hs0"
    and "list_all2 (\<lambda>f h. \<exists>r. L f b = Some r \<and> h = g r) cs hs1"
  shows "length hs0 = length cs \<and> length hs1 = length cs \<and>
         (\<forall>i < length cs. \<exists>s q. L (cs ! i) a = Some s \<and> L (cs ! i) b = Some q \<and>
                                 hs0 ! i = g s \<and> hs1 ! i = g q)"
proof (intro conjI allI impI)
  show "length hs0 = length cs" using assms(1) by (simp add: list_all2_lengthD)
  show "length hs1 = length cs" using assms(2) by (simp add: list_all2_lengthD)
  fix i assume i: "i < length cs"
  from list_all2_nthD [OF assms(1) i] obtain s where "L (cs ! i) a = Some s" "hs0 ! i = g s"
    by blast
  moreover from list_all2_nthD [OF assms(2) i] obtain q where "L (cs ! i) b = Some q" "hs1 ! i = g q"
    by blast
  ultimately show "\<exists>s q. L (cs ! i) a = Some s \<and> L (cs ! i) b = Some q \<and>
                          hs0 ! i = g s \<and> hs1 ! i = g q"
    by blast
qed

text \<open>
  C10. In the figure that the time renderer and the throughput renderer build and hand to
  the drawing, the list of labels and the two lists
  of heights have the same length, and at every position the two heights are read from
  the two records that the index holds under the label of that position.
\<close>

theorem grouped_bars_aligned:
  "(\<exists>ax. time_figure env rows p1 = Inr (p1, ax) \<and>
      make_time_plot env rows p1 = savefig env (p1, ax) \<and>
      length (bar_heights ax 0) = length (categories ax) \<and>
      length (bar_heights ax 1) = length (categories ax) \<and>
      (\<forall>i < length (categories ax).
         \<exists>s q. lookup2 (pivot_by_file rows) (categories ax ! i) ''SHA-256'' = Some s \<and>
               lookup2 (pivot_by_file rows) (categories ax ! i) ''PH128'' = Some q \<and>
               bar_heights ax 0 ! i = elapsed_ms_med s \<and>
               bar_heights ax 1 ! i = elapsed_ms_med q)) \<and>
   (\<exists>ax. throughput_figure env rows p2 = Inr (p2, ax) \<and>
      make_throughput_plot env rows p2 = savefig env (p2, ax) \<and>
      length (bar_heights ax 0) = length (categories ax) \<and>
      length (bar_heights ax 1) = length (categories ax) \<and>
      (\<forall>i < length (categories ax).
         \<exists>s q. lookup2 (pivot_by_file rows) (categories ax ! i) ''SHA-256'' = Some s \<and>
               lookup2 (pivot_by_file rows) (categories ax ! i) ''PH128'' = Some q \<and>
               bar_heights ax 0 ! i = throughput_mib_s s \<and>
               bar_heights ax 1 ! i = throughput_mib_s q))"
proof (rule conjI)
  from time_plot_props [of env rows p1]
  obtain ax where ax: "time_figure env rows p1 = Inr (p1, ax)"
    and s: "list_all2 (\<lambda>f h. \<exists>r. lookup2 (pivot_by_file rows) f ''SHA-256'' = Some r \<and>
                           h = elapsed_ms_med r) (categories ax) (bar_heights ax 0)"
    and q: "list_all2 (\<lambda>f h. \<exists>r. lookup2 (pivot_by_file rows) f ''PH128'' = Some r \<and>
                           h = elapsed_ms_med r) (categories ax) (bar_heights ax 1)"
    by (elim exE conjE)
  from ax make_plot_savefig(1) [OF ax]
    aligned_from_list_all2 [where L = "lookup2 (pivot_by_file rows)" and a = "''SHA-256''"
      and b = "''PH128''" and g = elapsed_ms_med, OF s q]
  show "\<exists>ax. time_figure env rows p1 = Inr (p1, ax) \<and>
      make_time_plot env rows p1 = savefig env (p1, ax) \<and>
      length (bar_heights ax 0) = length (categories ax) \<and>
      length (bar_heights ax 1) = length (categories ax) \<and>
      (\<forall>i < length (categories ax).
         \<exists>s q. lookup2 (pivot_by_file rows) (categories ax ! i) ''SHA-256'' = Some s \<and>
               lookup2 (pivot_by_file rows) (categories ax ! i) ''PH128'' = Some q \<and>
               bar_heights ax 0 ! i = elapsed_ms_med s \<and>
               bar_heights ax 1 ! i = elapsed_ms_med q)"
    by blast
next
  from throughput_plot_props [of env rows p2]
  obtain ax where ax: "throughput_figure env rows p2 = Inr (p2, ax)"
    and s: "list_all2 (\<lambda>f h. \<exists>r. lookup2 (pivot_by_file rows) f ''SHA-256'' = Some r \<and>
                           h = throughput_mib_s r) (categories ax) (bar_heights ax 0)"
    and q: "list_all2 (\<lambda>f h. \<exists>r. lookup2 (pivot_by_file rows) f ''PH128'' = Some r \<and>
                           h = throughput_mib_s r) (categories ax) (bar_heights ax 1)"
    by (elim exE conjE)
  from ax make_plot_savefig(3) [OF ax]
    aligned_from_list_all2 [where L = "lookup2 (pivot_by_file rows)" and a = "''SHA-256''"
      and b = "''PH128''" and g = throughput_mib_s, OF s q]
  show "\<exists>ax. throughput_figure env rows p2 = Inr (p2, ax) \<and>
      make_throughput_plot env rows p2 = savefig env (p2, ax) \<and>
      length (bar_heights ax 0) = length (categories ax) \<and>
      length (bar_heights ax 1) = length (categories ax) \<and>
      (\<forall>i < length (categories ax).
         \<exists>s q. lookup2 (pivot_by_file rows) (categories ax ! i) ''SHA-256'' = Some s \<and>
               lookup2 (pivot_by_file rows) (categories ax ! i) ''PH128'' = Some q \<and>
               bar_heights ax 0 ! i = throughput_mib_s s \<and>
               bar_heights ax 1 ! i = throughput_mib_s q)"
    by blast
qed

theorem grouped_bars_aligned_witness:
  "(\<exists>ax. make_time_plot ref_env example_rows ''t.png'' = Inr (''t.png'', ax) \<and>
      categories ax = [''zeta.data'', ''txids.data'', ''alpha.bin''] \<and>
      bar_heights ax 0 = [100, 7, 1] \<and> bar_heights ax 1 = [25, 8, 2] \<and>
      length (bar_heights ax 0) = length (categories ax) \<and>
      length (bar_heights ax 1) = length (categories ax) \<and>
      (\<exists>s q. lookup2 (pivot_by_file example_rows) ''txids.data'' ''SHA-256'' = Some s \<and>
             lookup2 (pivot_by_file example_rows) ''txids.data'' ''PH128'' = Some q \<and>
             elapsed_ms_med s = 7 \<and> elapsed_ms_med q = 8)) \<and>
   (\<exists>ax. make_throughput_plot ref_env example_rows ''a.png'' = Inr (''a.png'', ax) \<and>
      categories ax = [''txids.data'', ''TOTAL'', ''alpha.bin'', ''zeta.data''] \<and>
      bar_heights ax 0 = [0, 30, 2, 10] \<and> bar_heights ax 1 = [4, 150, 8, 40] \<and>
      length (bar_heights ax 0) = length (categories ax) \<and>
      length (bar_heights ax 1) = length (categories ax))"
proof -
  note t = grouped_bars_aligned [of ref_env example_rows "''t.png''" "''a.png''"]
  from t [THEN conjunct1]
  obtain ax1 where a1: "time_figure ref_env example_rows ''t.png'' = Inr (''t.png'', ax1)"
    and m1: "make_time_plot ref_env example_rows ''t.png'' = savefig ref_env (''t.png'', ax1)"
    and l1: "length (bar_heights ax1 0) = length (categories ax1)"
            "length (bar_heights ax1 1) = length (categories ax1)"
    and p1: "\<forall>i < length (categories ax1).
         \<exists>s q. lookup2 (pivot_by_file example_rows) (categories ax1 ! i) ''SHA-256'' = Some s \<and>
               lookup2 (pivot_by_file example_rows) (categories ax1 ! i) ''PH128'' = Some q \<and>
               bar_heights ax1 0 ! i = elapsed_ms_med s \<and>
               bar_heights ax1 1 ! i = elapsed_ms_med q"
    by (elim exE conjE)
  from t [THEN conjunct2]
  obtain ax2 where a2: "throughput_figure ref_env example_rows ''a.png'' = Inr (''a.png'', ax2)"
    and m2: "make_throughput_plot ref_env example_rows ''a.png'' = savefig ref_env (''a.png'', ax2)"
    and l2: "length (bar_heights ax2 0) = length (categories ax2)"
            "length (bar_heights ax2 1) = length (categories ax2)"
    by (elim exE conjE)
  from a1 have v1: "categories ax1 = [''zeta.data'', ''txids.data'', ''alpha.bin'']"
      "bar_heights ax1 0 = [100, 7, 1]" "bar_heights ax1 1 = [25, 8, 2]"
    unfolding example_time by (auto simp: categories_def bar_heights_def)
  from a2 have v2: "categories ax2 = [''txids.data'', ''TOTAL'', ''alpha.bin'', ''zeta.data'']"
      "bar_heights ax2 0 = [0, 30, 2, 10]" "bar_heights ax2 1 = [4, 150, 8, 40]"
    unfolding example_throughput by (auto simp: categories_def bar_heights_def)
  have r1: "make_time_plot ref_env example_rows ''t.png'' = Inr (''t.png'', ax1)"
    unfolding m1 by (rule ref_savefig) (simp add: v1)
  have r2: "make_throughput_plot ref_env example_rows ''a.png'' = Inr (''a.png'', ax2)"
    unfolding m2 by (rule ref_savefig) (simp add: v2)
  have i1: "(1::nat) < length (categories ax1)" by (simp add: v1)
  from p1 [rule_format, OF i1] have "\<exists>s q. lookup2 (pivot_by_file example_rows) (categories ax1 ! 1) ''SHA-256'' = Some s \<and>
               lookup2 (pivot_by_file example_rows) (categories ax1 ! 1) ''PH128'' = Some q \<and>
               bar_heights ax1 0 ! 1 = elapsed_ms_med s \<and>
               bar_heights ax1 1 ! 1 = elapsed_ms_med q"
    .
  then have e1: "\<exists>s q. lookup2 (pivot_by_file example_rows) ''txids.data'' ''SHA-256'' = Some s \<and>
             lookup2 (pivot_by_file example_rows) ''txids.data'' ''PH128'' = Some q \<and>
             elapsed_ms_med s = 7 \<and> elapsed_ms_med q = 8"
    unfolding v1 by (elim exE conjE) auto
  show ?thesis
  proof (rule conjI)
    from r1 l1 v1 e1
    show "\<exists>ax. make_time_plot ref_env example_rows ''t.png'' = Inr (''t.png'', ax) \<and>
      categories ax = [''zeta.data'', ''txids.data'', ''alpha.bin''] \<and>
      bar_heights ax 0 = [100, 7, 1] \<and> bar_heights ax 1 = [25, 8, 2] \<and>
      length (bar_heights ax 0) = length (categories ax) \<and>
      length (bar_heights ax 1) = length (categories ax) \<and>
      (\<exists>s q. lookup2 (pivot_by_file example_rows) ''txids.data'' ''SHA-256'' = Some s \<and>
             lookup2 (pivot_by_file example_rows) ''txids.data'' ''PH128'' = Some q \<and>
             elapsed_ms_med s = 7 \<and> elapsed_ms_med q = 8)"
      by (intro exI [of _ ax1] conjI)
    from r2 l2 v2
    show "\<exists>ax. make_throughput_plot ref_env example_rows ''a.png'' = Inr (''a.png'', ax) \<and>
      categories ax = [''txids.data'', ''TOTAL'', ''alpha.bin'', ''zeta.data''] \<and>
      bar_heights ax 0 = [0, 30, 2, 10] \<and> bar_heights ax 1 = [4, 150, 8, 40] \<and>
      length (bar_heights ax 0) = length (categories ax) \<and>
      length (bar_heights ax 1) = length (categories ax)"
      by (intro exI [of _ ax2] conjI)
  qed
qed

subsection \<open>The row reader\<close>

lemma to_int_eq: "to_int env x = py_int env (strip (or_empty x))"
  by (simp add: to_int_def split: option.splits)

lemma to_float_eq: "to_float env x = py_float env (strip (or_empty x))"
  by (simp add: to_float_def split: option.splits)

lemma strip_blank:
  assumes "list_all is_space s"
  shows "strip s = []"
proof -
  have d: "dropWhile is_space s = []"
    using assms by (simp add: dropWhile_eq_Nil_conv list_all_iff)
  show ?thesis unfolding strip_def d by simp
qed

lemma blank_cell_text: "blank_cell r k \<Longrightarrow> cell_text r k = []"
  by (auto simp: blank_cell_def cell_text_def dict_get_def or_empty_def strip_blank
      split: option.splits)

lemma read_row_cases:
  "read_row env r rows =
     (case subscript_strip r ''algo'' of Inl e \<Rightarrow> Inl e | Inr a \<Rightarrow>
      case subscript_strip r ''file'' of Inl e \<Rightarrow> Inl e | Inr f \<Rightarrow>
        Inr (rows @
          [\<lparr> algo = a, file_name = f,
             B_bytes = py_int env (cell_text r ''B_bytes''),
             bytes = or_int (py_int env (cell_text r ''bytes'')) 0,
             elapsed_ms_med = or_float env (py_float env (cell_text r ''elapsed_ms_med'')) (f_zero env),
             throughput_mib_s =
               or_float env (py_float env (cell_text r ''throughput_mib_s'')) (f_zero env),
             sum_hex = cell_text r ''sum_hex'' \<rparr>]))"
  by (simp add: read_row_def to_int_eq to_float_eq cell_text_def split: sum.splits)

lemma example_cells_eq:
  "example_cells =
     [(''algo'', Some ''PH128 ''), (''file'', Some ''a.bin''), (''B_bytes'', Some ''x''),
      (''bytes'', Some ''1.5''), (''elapsed_ms_med'', Some ''  ''),
      (''throughput_mib_s'', None)]"
  by (simp add: example_cells_def dict_row_def)

lemma example_cell_texts:
  "cell_text example_cells ''B_bytes'' = ''x''"
  "cell_text example_cells ''bytes'' = ''1.5''"
  "cell_text example_cells ''elapsed_ms_med'' = []"
  "cell_text example_cells ''throughput_mib_s'' = []"
  "cell_text example_cells ''sum_hex'' = []"
  by (simp_all add: example_cells_eq cell_text_def dict_get_def or_empty_def strip_def is_space_def)

lemma example_parses:
  "ref_int ''x'' = None" "ref_int ''1.5'' = None" "ref_int [] = None"
  "ref_float [] = None" "ref_float ''1.5'' = Some (3 / 2)"
  by (simp_all add: ref_int_def ref_float_def strip_def is_space_def unsigned_int_def is_digit_def
      digit_val_def Let_def)

lemma example_read_row:
  "read_row ref_env example_cells [] =
     Inr [\<lparr> algo = ''PH128'', file_name = ''a.bin'', B_bytes = None, bytes = 0,
             elapsed_ms_med = 0, throughput_mib_s = 0, sum_hex = [] \<rparr>]"
  unfolding read_row_cases example_cell_texts
  by (simp add: example_cells_eq subscript_strip_def subscript_def strip_def is_space_def
      ref_env_def example_parses or_int_def or_float_def)

text \<open>
  C4. Reading a row fails only on its \<open>algo\<close> or \<open>file\<close> cell; the four numeric cells never
  make it fail. In the record that is read, a declared size whose text the integer parser
  rejects is \<open>None\<close>, a byte count whose text it rejects is 0, and a median time or a
  throughput whose text the float parser rejects is \<open>0.0\<close>. A cell that is absent, \<open>None\<close> or
  white space reaches the parser as the empty string, so it gets the same defaults
  whenever the parser rejects the empty string.
\<close>

theorem coercion_defaults:
  "(case read_row env r rows of
      Inl e \<Rightarrow> subscript_strip r ''algo'' = Inl e \<or> subscript_strip r ''file'' = Inl e
    | Inr rows' \<Rightarrow>
        \<exists>out. rows' = rows @ [out] \<and>
          (py_int env (cell_text r ''B_bytes'') = None \<longrightarrow> B_bytes out = None) \<and>
          (py_int env (cell_text r ''bytes'') = None \<longrightarrow> bytes out = 0) \<and>
          (py_float env (cell_text r ''elapsed_ms_med'') = None
             \<longrightarrow> elapsed_ms_med out = f_zero env) \<and>
          (py_float env (cell_text r ''throughput_mib_s'') = None
             \<longrightarrow> throughput_mib_s out = f_zero env) \<and>
          (blank_cell r ''B_bytes'' \<and> py_int env [] = None \<longrightarrow> B_bytes out = None) \<and>
          (blank_cell r ''bytes'' \<and> py_int env [] = None \<longrightarrow> bytes out = 0) \<and>
          (blank_cell r ''elapsed_ms_med'' \<and> py_float env [] = None
             \<longrightarrow> elapsed_ms_med out = f_zero env) \<and>
          (blank_cell r ''throughput_mib_s'' \<and> py_float env [] = None
             \<longrightarrow> throughput_mib_s out = f_zero env))"
  unfolding read_row_cases
  by (auto simp: or_int_def or_float_def blank_cell_text split: sum.splits)

theorem coercion_defaults_witness:
  "blank_cell example_cells ''elapsed_ms_med'' \<and> blank_cell example_cells ''throughput_mib_s'' \<and>
   py_float ref_env [] = None \<and>
   py_int ref_env (cell_text example_cells ''B_bytes'') = None \<and>
   py_int ref_env (cell_text example_cells ''bytes'') = None \<and>
   (\<exists>out. read_row ref_env example_cells [] = Inr [out] \<and>
      B_bytes out = None \<and> bytes out = 0 \<and> elapsed_ms_med out = 0 \<and> throughput_mib_s out = 0)"
proof -
  have b: "blank_cell example_cells ''elapsed_ms_med''"
          "blank_cell example_cells ''throughput_mib_s''"
    by (simp_all add: blank_cell_def example_cells_eq is_space_def)
  have p: "py_float ref_env [] = None"
          "py_int ref_env (cell_text example_cells ''B_bytes'') = None"
          "py_int ref_env (cell_text example_cells ''bytes'') = None"
    by (simp_all add: example_cell_texts ref_env_def example_parses)
  have z: "f_zero ref_env = 0" by (simp add: ref_env_def)
  from coercion_defaults [where env = ref_env and r = example_cells and rows = "[]"]
  have "\<exists>out. read_row ref_env example_cells [] = Inr [out] \<and>
      B_bytes out = None \<and> bytes out = 0 \<and> elapsed_ms_med out = 0 \<and> throughput_mib_s out = 0"
    unfolding example_read_row using b p z by simp
  with b p show ?thesis by (intro conjI)
qed

text \<open>
  C6, as the code has it. Each numeric cell gets one parse, chosen by its column: the
  integer parser for \<open>B_bytes\<close> and \<open>bytes\<close>, the float parser for \<open>elapsed_ms_med\<close> and
  \<open>throughput_mib_s\<close>, on the stripped text of the cell, a cell that is absent, \<open>None\<close> or
  white space giving the empty text. There is no second attempt with the other parser:
  the integer fields of the record are a function of the integer parser's answer alone,
  so a byte count that the integer parser rejects is 0 whatever the float parser would
  make of it.
\<close>

theorem coercion_single_parse:
  "to_int env x = py_int env (strip (or_empty x)) \<and>
   to_float env x = py_float env (strip (or_empty x)) \<and>
   to_int (env\<lparr> py_float := fp \<rparr>) x = to_int env x \<and>
   to_float (env\<lparr> py_int := ip \<rparr>) x = to_float env x \<and>
   (\<forall>k. blank_cell r k \<longrightarrow> cell_text r k = []) \<and>
   (\<forall>rows'. read_row env r rows = Inr rows' \<longrightarrow>
      (\<exists>out. rows' = rows @ [out] \<and>
         B_bytes out = py_int env (cell_text r ''B_bytes'') \<and>
         bytes out = or_int (py_int env (cell_text r ''bytes'')) 0 \<and>
         elapsed_ms_med out =
           or_float env (py_float env (cell_text r ''elapsed_ms_med'')) (f_zero env) \<and>
         throughput_mib_s out =
           or_float env (py_float env (cell_text r ''throughput_mib_s'')) (f_zero env) \<and>
         (py_int env (cell_text r ''bytes'') = None \<longrightarrow> bytes out = 0)))"
  unfolding read_row_cases
  by (auto simp: to_int_eq to_float_eq blank_cell_text or_int_def split: sum.splits)

theorem coercion_single_parse_witness:
  "to_int ref_env (Some ''1.5'') = None \<and>
   to_float ref_env (Some ''1.5'') = Some (3 / 2) \<and>
   blank_cell example_cells ''throughput_mib_s'' \<and>
   cell_text example_cells ''throughput_mib_s'' = [] \<and>
   (\<exists>out. read_row ref_env example_cells [] = Inr [out] \<and> bytes out = 0)"
proof -
  note t = coercion_single_parse [where env = ref_env and x = "Some ''1.5''" and fp = ref_float
      and ip = ref_int and r = example_cells and rows = "[]"]
  have s: "strip (or_empty (Some ''1.5'')) = ''1.5''"
    by (simp add: or_empty_def strip_def is_space_def)
  from t have 1: "to_int ref_env (Some ''1.5'') = None"
    and 2: "to_float ref_env (Some ''1.5'') = Some (3 / 2)"
    unfolding s by (simp_all add: ref_env_def example_parses)
  have b: "blank_cell example_cells ''throughput_mib_s''"
    by (simp add: blank_cell_def example_cells_eq)
  from t b have 3: "cell_text example_cells ''throughput_mib_s'' = []" by blast
  from t have 4: "\<exists>out. read_row ref_env example_cells [] = Inr [out] \<and> bytes out = 0"
    unfolding example_read_row by simp
  from 1 2 b 3 4 show ?thesis by (intro conjI)
qed

text \<open>
  The claim C6 itself fails on the row of the example: its byte count is written \<open>1.5\<close>,
  which the float parser reads as one and a half, and the record has the default 0.
\<close>

theorem float_fallback_counterexample:
  "cell_text example_cells ''bytes'' = ''1.5'' \<and>
   py_float ref_env ''1.5'' = Some (3 / 2) \<and>
   py_int ref_env ''1.5'' = None \<and>
   to_int ref_env (dict_get example_cells ''bytes'' (Some [])) = None \<and>
   read_row ref_env example_cells [] =
     Inr [\<lparr> algo = ''PH128'', file_name = ''a.bin'', B_bytes = None, bytes = 0,
             elapsed_ms_med = 0, throughput_mib_s = 0, sum_hex = [] \<rparr>]"
proof (intro conjI)
  show "cell_text example_cells ''bytes'' = ''1.5''"
    by (rule example_cell_texts(2))
  show "py_float ref_env ''1.5'' = Some (3 / 2)"
    by (simp add: ref_env_def example_parses)
  show "py_int ref_env ''1.5'' = None"
    by (simp add: ref_env_def example_parses)
  have "to_int ref_env (dict_get example_cells ''bytes'' (Some [])) =
        py_int ref_env (cell_text example_cells ''bytes'')"
    by (simp add: to_int_eq cell_text_def)
  then show "to_int ref_env (dict_get example_cells ''bytes'' (Some [])) = None"
    unfolding example_cell_texts by (simp add: ref_env_def example_parses)
  show "read_row ref_env example_cells [] =
     Inr [\<lparr> algo = ''PH128'', file_name = ''a.bin'', B_bytes = None, bytes = 0,
             elapsed_ms_med = 0, throughput_mib_s = 0, sum_hex = [] \<rparr>]"
    by (rule example_read_row)
qed

subsection \<open>The empty table and the entry point\<close>






lemma figures_total:
  "\<exists>fig. time_figure env rows p = Inr (p, fig)"
  "\<exists>fig. speedup_figure env rows p = Inr (p, fig)"
  "\<exists>fig. throughput_figure env rows p = Inr (p, fig)"
  by (simp_all add: time_figure_eq speedup_figure_eq throughput_figure_eq Let_def)

lemma savefig_cases:
  "savefig env (p, ax) = (case draw env ax p of Some e \<Rightarrow> Inl e | None \<Rightarrow> Inr (p, ax))"
  by (simp add: savefig_def)

lemma out_path_eq:
  "path_join env (outdir a) (path_stem env (csv a) @ ''_time.png'') = out_path env a ''_time''"
  "path_join env (outdir a) (path_stem env (csv a) @ ''_speedup.png'') =
     out_path env a ''_speedup''"
  "path_join env (outdir a) (path_stem env (csv a) @ ''_throughput.png'') =
     out_path env a ''_throughput''"
  by (simp_all add: out_path_def)

lemma example_read:
  "read_rows ref_env example_table =
     Inr [\<lparr> algo = ''SHA-256'', file_name = ''data.bin'', B_bytes = None, bytes = 1048576,
             elapsed_ms_med = 100, throughput_mib_s = 10, sum_hex = [] \<rparr>,
          \<lparr> algo = ''PH128'', file_name = ''data.bin'', B_bytes = None, bytes = 1048576,
             elapsed_ms_med = 20, throughput_mib_s = 50, sum_hex = [] \<rparr>]"
  by (simp add: read_rows_def example_table_def dict_row_def read_row_cases cell_text_def
      subscript_strip_def subscript_def dict_get_def or_empty_def strip_def is_space_def
      ref_env_def ref_int_def ref_float_def unsigned_int_def is_digit_def digit_val_def
      or_int_def or_float_def Let_def)

lemma example_two_rows:
  "time_figure ref_env
     [\<lparr> algo = ''SHA-256'', file_name = ''data.bin'', B_bytes = None, bytes = 1048576,
         elapsed_ms_med = 100, throughput_mib_s = 10, sum_hex = [] \<rparr>,
      \<lparr> algo = ''PH128'', file_name = ''data.bin'', B_bytes = None, bytes = 1048576,
         elapsed_ms_med = 20, throughput_mib_s = 50, sum_hex = [] \<rparr>] p =
   Inr (p, \<lparr> bar_calls = [([0], [100], Some ''SHA-256''), ([0], [20], Some ''PH128'')],
             xticks = ([0], [''data.bin'']), legend_drawn = True,
             text_calls = [(100, ''100.00''), (20, ''20.00'')] \<rparr>)"
  "speedup_figure ref_env
     [\<lparr> algo = ''SHA-256'', file_name = ''data.bin'', B_bytes = None, bytes = 1048576,
         elapsed_ms_med = 100, throughput_mib_s = 10, sum_hex = [] \<rparr>,
      \<lparr> algo = ''PH128'', file_name = ''data.bin'', B_bytes = None, bytes = 1048576,
         elapsed_ms_med = 20, throughput_mib_s = 50, sum_hex = [] \<rparr>] p =
   Inr (p, \<lparr> bar_calls = [([0], [5], None)], xticks = ([0], [''data.bin'']),
             legend_drawn = False, text_calls = [(5, ''5.00'')] \<rparr>)"
  "throughput_figure ref_env
     [\<lparr> algo = ''SHA-256'', file_name = ''data.bin'', B_bytes = None, bytes = 1048576,
         elapsed_ms_med = 100, throughput_mib_s = 10, sum_hex = [] \<rparr>,
      \<lparr> algo = ''PH128'', file_name = ''data.bin'', B_bytes = None, bytes = 1048576,
         elapsed_ms_med = 20, throughput_mib_s = 50, sum_hex = [] \<rparr>] p =
   Inr (p, \<lparr> bar_calls = [([0], [10], Some ''SHA-256''), ([0], [50], Some ''PH128'')],
             xticks = ([0], [''data.bin'']), legend_drawn = True,
             text_calls = [(10, ''10.00''), (50, ''50.00'')] \<rparr>)"
  by (simp_all add: time_figure_eq speedup_figure_eq throughput_figure_eq
      pivot_by_file_def pivot_step_def has_key_def dict_get_def Let_def time_keep_def
      has_both_def speedup_keep_def qualifies_def lookup2_def preferred_def ref_env_def
      fmt_examples)

lemma example_paths:
  "out_path ref_env \<lparr> csv = ''results/snapshot_bench.csv'', outdir = ''out'' \<rparr> ''_time'' =
     ''out/snapshot_bench_time.png''"
  "out_path ref_env \<lparr> csv = ''results/snapshot_bench.csv'', outdir = ''out'' \<rparr> ''_speedup'' =
     ''out/snapshot_bench_speedup.png''"
  "out_path ref_env \<lparr> csv = ''results/snapshot_bench.csv'', outdir = ''out'' \<rparr> ''_throughput'' =
     ''out/snapshot_bench_throughput.png''"
  by (simp_all add: out_path_def ref_env_def ref_stem_def ref_join_def Let_def)

lemma ref_draw_plain:
  "draw ref_env \<lparr> bar_calls = b, xticks = (x, [''data.bin'']), legend_drawn = l,
                   text_calls = t \<rparr> p = None"
  "draw ref_env \<lparr> bar_calls = b, xticks = (x, []), legend_drawn = l, text_calls = t \<rparr> p = None"
  by (simp_all add: ref_env_def ref_draw_def categories_def)

lemma example_dollar_read:
  "read_rows ref_env dollar_table =
     Inr [\<lparr> algo = ''SHA-256'', file_name = ''$$'', B_bytes = None, bytes = 0,
             elapsed_ms_med = 1, throughput_mib_s = 1, sum_hex = [] \<rparr>,
          \<lparr> algo = ''PH128'', file_name = ''$$'', B_bytes = None, bytes = 0,
             elapsed_ms_med = 1, throughput_mib_s = 1, sum_hex = [] \<rparr>]"
  by (simp add: read_rows_def dollar_table_def dict_row_def read_row_cases cell_text_def
      subscript_strip_def subscript_def dict_get_def or_empty_def strip_def is_space_def
      ref_env_def ref_int_def ref_float_def unsigned_int_def is_digit_def digit_val_def
      or_int_def or_float_def Let_def)

lemma example_dollar_figure:
  "time_figure ref_env
     [\<lparr> algo = ''SHA-256'', file_name = ''$$'', B_bytes = None, bytes = 0,
         elapsed_ms_med = 1, throughput_mib_s = 1, sum_hex = [] \<rparr>,
      \<lparr> algo = ''PH128'', file_name = ''$$'', B_bytes = None, bytes = 0,
         elapsed_ms_med = 1, throughput_mib_s = 1, sum_hex = [] \<rparr>] p =
   Inr (p, \<lparr> bar_calls = [([0], [1], Some ''SHA-256''), ([0], [1], Some ''PH128'')],
             xticks = ([0], [''$$'']), legend_drawn = True,
             text_calls = [(1, ''1.00''), (1, ''1.00'')] \<rparr>)"
  by (simp add: time_figure_eq pivot_by_file_def pivot_step_def has_key_def dict_get_def Let_def
      time_keep_def has_both_def ref_env_def fmt_examples)

lemma ref_draw_dollar:
  "draw ref_env \<lparr> bar_calls = b, xticks = (x, [''$$'']), legend_drawn = l,
                   text_calls = t \<rparr> p = Some ValueError"
  by (simp add: ref_env_def ref_draw_def categories_def)



text \<open>
  C9. The entry point reads the table, then calls the time renderer, the speedup renderer
  and the throughput renderer, in this order, each with the output directory joined with
  the stem of the input path followed by \<open>_time\<close>, \<open>_speedup\<close> or \<open>_throughput\<close> and
  \<open>.png\<close>. A run stops at the first failure, of the reader or of a drawing, with the
  images saved so far and no printed line. A run that completes has saved the three
  figures under these three paths in this order and has then printed the line
  \<open>OK! Arquivos salvos:\<close> and one line per path, in the same order.
\<close>

theorem main_outputs:
  "(case read_rows env table of
      Inl e \<Rightarrow> main env a table = ([], Some e)
    | Inr rows \<Rightarrow>
        \<exists>fig1 fig2 fig3.
          time_figure env rows (out_path env a ''_time'') =
            Inr (out_path env a ''_time'', fig1) \<and>
          speedup_figure env rows (out_path env a ''_speedup'') =
            Inr (out_path env a ''_speedup'', fig2) \<and>
          throughput_figure env rows (out_path env a ''_throughput'') =
            Inr (out_path env a ''_throughput'', fig3) \<and>
          main env a table =
            (case draw env fig1 (out_path env a ''_time'') of
               Some e \<Rightarrow> ([], Some e)
             | None \<Rightarrow>
            (case draw env fig2 (out_path env a ''_speedup'') of
               Some e \<Rightarrow> ([Saved (out_path env a ''_time'', fig1)], Some e)
             | None \<Rightarrow>
            (case draw env fig3 (out_path env a ''_throughput'') of
               Some e \<Rightarrow> ([Saved (out_path env a ''_time'', fig1),
                            Saved (out_path env a ''_speedup'', fig2)], Some e)
             | None \<Rightarrow>
                 ([Saved (out_path env a ''_time'', fig1),
                   Saved (out_path env a ''_speedup'', fig2),
                   Saved (out_path env a ''_throughput'', fig3),
                   Printed ''OK! Arquivos salvos:'',
                   Printed ('' - '' @ out_path env a ''_time''),
                   Printed ('' - '' @ out_path env a ''_speedup''),
                   Printed ('' - '' @ out_path env a ''_throughput'')], None))))) \<and>
   (\<forall>effs. main env a table = (effs, None) \<longrightarrow>
      (\<exists>rows fig1 fig2 fig3.
         read_rows env table = Inr rows \<and>
         make_time_plot env rows (out_path env a ''_time'') =
           Inr (out_path env a ''_time'', fig1) \<and>
         make_speedup_plot env rows (out_path env a ''_speedup'') =
           Inr (out_path env a ''_speedup'', fig2) \<and>
         make_throughput_plot env rows (out_path env a ''_throughput'') =
           Inr (out_path env a ''_throughput'', fig3) \<and>
         effs = [Saved (out_path env a ''_time'', fig1),
                 Saved (out_path env a ''_speedup'', fig2),
                 Saved (out_path env a ''_throughput'', fig3),
                 Printed ''OK! Arquivos salvos:'',
                 Printed ('' - '' @ out_path env a ''_time''),
                 Printed ('' - '' @ out_path env a ''_speedup''),
                 Printed ('' - '' @ out_path env a ''_throughput'')]))"
proof (cases "read_rows env table")
  case (Inl e)
  then show ?thesis by (simp add: main_def)
next
  case (Inr rows)
  define t where "t = out_path env a ''_time''"
  define s where "s = out_path env a ''_speedup''"
  define h where "h = out_path env a ''_throughput''"
  from figures_total(1) [of env rows t] obtain fig1
    where 1: "time_figure env rows t = Inr (t, fig1)" ..
  from figures_total(2) [of env rows s] obtain fig2
    where 2: "speedup_figure env rows s = Inr (s, fig2)" ..
  from figures_total(3) [of env rows h] obtain fig3
    where 3: "throughput_figure env rows h = Inr (h, fig3)" ..
  have r: "make_time_plot env rows t =
             (case draw env fig1 t of Some e \<Rightarrow> Inl e | None \<Rightarrow> Inr (t, fig1))"
    "make_speedup_plot env rows s =
             (case draw env fig2 s of Some e \<Rightarrow> Inl e | None \<Rightarrow> Inr (s, fig2))"
    "make_throughput_plot env rows h =
             (case draw env fig3 h of Some e \<Rightarrow> Inl e | None \<Rightarrow> Inr (h, fig3))"
    by (simp_all add: make_plot_savefig(1) [OF 1] make_plot_savefig(2) [OF 2]
        make_plot_savefig(3) [OF 3] savefig_cases)
  have m: "main env a table =
      (case make_time_plot env rows t of Inl e \<Rightarrow> ([], Some e) | Inr s1 \<Rightarrow>
       case make_speedup_plot env rows s of Inl e \<Rightarrow> ([Saved s1], Some e) | Inr s2 \<Rightarrow>
       case make_throughput_plot env rows h of
         Inl e \<Rightarrow> ([Saved s1, Saved s2], Some e)
       | Inr s3 \<Rightarrow>
           ([Saved s1, Saved s2, Saved s3, Printed ''OK! Arquivos salvos:'',
             Printed ('' - '' @ t), Printed ('' - '' @ s), Printed ('' - '' @ h)], None))"
    unfolding main_def Inr Let_def out_path_eq t_def [symmetric] s_def [symmetric]
      h_def [symmetric]
    by simp
  have A: "main env a table =
            (case draw env fig1 t of
               Some e \<Rightarrow> ([], Some e)
             | None \<Rightarrow>
            (case draw env fig2 s of
               Some e \<Rightarrow> ([Saved (t, fig1)], Some e)
             | None \<Rightarrow>
            (case draw env fig3 h of
               Some e \<Rightarrow> ([Saved (t, fig1), Saved (s, fig2)], Some e)
             | None \<Rightarrow>
                 ([Saved (t, fig1), Saved (s, fig2), Saved (h, fig3),
                   Printed ''OK! Arquivos salvos:'',
                   Printed ('' - '' @ t), Printed ('' - '' @ s), Printed ('' - '' @ h)],
                  None))))"
    unfolding m r by (simp split: option.splits)
  have B: "\<exists>f1 f2 f3.
         make_time_plot env rows t = Inr (t, f1) \<and>
         make_speedup_plot env rows s = Inr (s, f2) \<and>
         make_throughput_plot env rows h = Inr (h, f3) \<and>
         effs = [Saved (t, f1), Saved (s, f2), Saved (h, f3),
                 Printed ''OK! Arquivos salvos:'',
                 Printed ('' - '' @ t), Printed ('' - '' @ s), Printed ('' - '' @ h)]"
    if "main env a table = (effs, None)" for effs
    using that unfolding A r by (auto split: option.splits)
  from 1 2 3 A B show ?thesis
    unfolding Inr t_def s_def h_def by simp
qed

theorem main_outputs_witness:
  "main ref_env \<lparr> csv = ''results/snapshot_bench.csv'', outdir = ''out'' \<rparr> example_table =
     ([Saved (''out/snapshot_bench_time.png'',
         \<lparr> bar_calls = [([0], [100], Some ''SHA-256''), ([0], [20], Some ''PH128'')],
            xticks = ([0], [''data.bin'']), legend_drawn = True,
            text_calls = [(100, ''100.00''), (20, ''20.00'')] \<rparr>),
       Saved (''out/snapshot_bench_speedup.png'',
         \<lparr> bar_calls = [([0], [5], None)], xticks = ([0], [''data.bin'']),
            legend_drawn = False, text_calls = [(5, ''5.00'')] \<rparr>),
       Saved (''out/snapshot_bench_throughput.png'',
         \<lparr> bar_calls = [([0], [10], Some ''SHA-256''), ([0], [50], Some ''PH128'')],
            xticks = ([0], [''data.bin'']), legend_drawn = True,
            text_calls = [(10, ''10.00''), (50, ''50.00'')] \<rparr>),
       Printed ''OK! Arquivos salvos:'',
       Printed '' - out/snapshot_bench_time.png'',
       Printed '' - out/snapshot_bench_speedup.png'',
       Printed '' - out/snapshot_bench_throughput.png''], None) \<and>
   main ref_env \<lparr> csv = ''results/snapshot_bench.csv'', outdir = ''out'' \<rparr> dollar_table =
     ([], Some ValueError)"
proof (rule conjI)
  from main_outputs [where env = ref_env and table = example_table
      and a = "\<lparr> csv = ''results/snapshot_bench.csv'', outdir = ''out'' \<rparr>", THEN conjunct1]
  show "main ref_env \<lparr> csv = ''results/snapshot_bench.csv'', outdir = ''out'' \<rparr> example_table =
     ([Saved (''out/snapshot_bench_time.png'',
         \<lparr> bar_calls = [([0], [100], Some ''SHA-256''), ([0], [20], Some ''PH128'')],
            xticks = ([0], [''data.bin'']), legend_drawn = True,
            text_calls = [(100, ''100.00''), (20, ''20.00'')] \<rparr>),
       Saved (''out/snapshot_bench_speedup.png'',
         \<lparr> bar_calls = [([0], [5], None)], xticks = ([0], [''data.bin'']),
            legend_drawn = False, text_calls = [(5, ''5.00'')] \<rparr>),
       Saved (''out/snapshot_bench_throughput.png'',
         \<lparr> bar_calls = [([0], [10], Some ''SHA-256''), ([0], [50], Some ''PH128'')],
            xticks = ([0], [''data.bin'']), legend_drawn = True,
            text_calls = [(10, ''10.00''), (50, ''50.00'')] \<rparr>),
       Printed ''OK! Arquivos salvos:'',
       Printed '' - out/snapshot_bench_time.png'',
       Printed '' - out/snapshot_bench_speedup.png'',
       Printed '' - out/snapshot_bench_throughput.png''], None)"
    unfolding example_read example_paths
    by (auto simp: example_two_rows ref_draw_plain)
  from main_outputs [where env = ref_env and table = dollar_table
      and a = "\<lparr> csv = ''results/snapshot_bench.csv'', outdir = ''out'' \<rparr>", THEN conjunct1]
  show "main ref_env \<lparr> csv = ''results/snapshot_bench.csv'', outdir = ''out'' \<rparr> dollar_table =
     ([], Some ValueError)"
    unfolding example_dollar_read example_paths
    by (auto simp: example_dollar_figure ref_draw_dollar)
qed

end
